theory Spec2Isabelle
  imports Main "HOL-Library.Word" "HOL-Library.Multiset" "HOL-Library.Product_Lexorder"
begin

section \<open>JavaScript strings\<close>

text \<open>
  A JavaScript string is a sequence of UTF-16 code units. \<open>lit\<close> embeds the ASCII
  literals of the source (\<^verbatim>\<open>'new'\<close>, \<^verbatim>\<open>'Unknown Lead'\<close>, ...). A string is truthy
  exactly when it is not empty.
\<close>

type_synonym js_string = "16 word list"

definition lit :: "string \<Rightarrow> js_string" where
  "lit s = map (\<lambda>c. of_nat (of_char c)) s"

text \<open>
  \<^verbatim>\<open>String.prototype.trim\<close> strips the ECMAScript WhiteSpace and LineTerminator code
  points from both ends: TAB, LF, VT, FF, CR, SPACE, NBSP, U+1680, U+2000..U+200A,
  U+2028, U+2029, U+202F, U+205F, U+3000 and U+FEFF.
\<close>

definition is_white_space :: "16 word \<Rightarrow> bool" where
  "is_white_space c \<longleftrightarrow>
     c \<in> {0x0009, 0x000A, 0x000B, 0x000C, 0x000D, 0x0020, 0x00A0, 0x1680,
          0x2028, 0x2029, 0x202F, 0x205F, 0x3000, 0xFEFF}
     \<or> (0x2000 \<le> c \<and> c \<le> 0x200A)"

definition trim :: "js_string \<Rightarrow> js_string" where
  "trim s = rev (dropWhile is_white_space (rev (dropWhile is_white_space s)))"

text \<open>The words of the specification: a text that is empty or whitespace-only.\<close>

definition blank :: "js_string \<Rightarrow> bool" where
  "blank s = list_all is_white_space s"

section \<open>Rows of the tables the pages read\<close>

text \<open>
  The columns are the ones the two pages use. \<open>created_at\<close> travels as an ISO-8601
  string; the model keeps the instant it denotes, which is what the database orders by.
\<close>

record Lead =
  l_id :: js_string
  l_name :: js_string
  l_email :: js_string
  l_phone :: js_string
  l_product :: "js_string option"
  l_status :: js_string
  l_created_at :: nat

record Note =
  n_id :: js_string
  n_lead_id :: js_string
  n_content :: js_string
  n_created_by :: js_string
  n_created_at :: nat

record FollowUp =
  f_id :: js_string
  f_lead_id :: js_string
  f_notes :: js_string
  f_follow_up_date :: nat
  f_created_at :: nat

datatype table =
  T_users | T_products | T_packages | T_leads | T_notes | T_targets
  | T_handle_customer_data | T_follow_ups

section \<open>The hosted backend, as the pages see it\<close>

text \<open>
  The backend is an external service. The model keeps the three tables the pages use,
  the requests issued so far (oldest first), the lines written with \<^verbatim>\<open>console.error\<close>
  the open realtime subscriptions, and the order the server gives to rows with the
  same creation time (\<open>tie_rank\<close>). Whether a call succeeds is the environment's
  choice, passed to each operation: a write resolves without error, resolves with an
  error object, or its promise rejects; a read resolves with the rows, resolves with
  \<^verbatim>\<open>data = null\<close>, or rejects. Row-level visibility is the server's and is not
  modelled: a successful read returns every row of the table.
\<close>

datatype write_outcome = WriteOk | WriteError js_string | WriteRejects js_string

datatype read_outcome = ReadOk | ReadNoData | ReadRejects js_string

datatype request =
    SelectReq table
  | InsertNoteReq js_string js_string js_string
  | InsertFollowUpReq js_string js_string nat
  | UpdateStatusReq js_string js_string

datatype change_kind = INSERT | UPDATE | DELETE

datatype event_filter = AnyEvent | OnlyEvent change_kind

record change_event =
  ev_kind :: change_kind
  ev_schema :: js_string
  ev_table :: table

record 'cb subscription =
  sub_channel :: js_string
  sub_event :: event_filter
  sub_schema :: js_string
  sub_table :: table
  sub_callback :: 'cb

record 'cb world =
  tbl_leads :: "Lead list"
  tbl_notes :: "Note list"
  tbl_follow_ups :: "FollowUp list"
  requests :: "request list"
  console :: "(js_string \<times> js_string) list"
  channels :: "'cb subscription list"
  tie_rank :: "nat \<Rightarrow> nat"

text \<open>
  \<^verbatim>\<open>.order('created_at', { ascending: false })\<close>: the rows come newest first. The
  order of rows with the same \<open>created_at\<close> is the server's to choose; \<open>rank\<close> (the
  \<open>tie_rank\<close> of the world, indexed by the position of a row in its table) stands for
  that choice, and every order of the tied rows is the result of some \<open>rank\<close>.
\<close>

definition newest_first :: "(nat \<Rightarrow> nat) \<Rightarrow> ('a \<Rightarrow> nat) \<Rightarrow> 'a list \<Rightarrow> 'a list" where
  "newest_first rank created xs =
     map snd (rev (sort_key (\<lambda>(i, x). (created x, rank i)) (enumerate 0 xs)))"

text \<open>
  A settled promise: fulfilled with a value, or rejected with a reason. The state
  reached so far is kept in both cases.
\<close>

datatype 'a settled = Fulfilled 'a | Rejected js_string 'a

fun state_of :: "'a settled \<Rightarrow> 'a" where
  "state_of (Fulfilled s) = s"
| "state_of (Rejected m s) = s"

text \<open>The \<^verbatim>\<open>data\<close> field of a read: the rows, or \<^verbatim>\<open>null\<close>.\<close>

fun select_data :: "read_outcome \<Rightarrow> 'a list \<Rightarrow> 'a list option settled" where
  "select_data ReadOk rows = Fulfilled (Some rows)"
| "select_data ReadNoData rows = Fulfilled None"
| "select_data (ReadRejects m) rows = Rejected m None"

definition log_request :: "request \<Rightarrow> 'cb world \<Rightarrow> 'cb world" where
  "log_request r w = w\<lparr>requests := requests w @ [r]\<rparr>"

definition console_error :: "js_string \<Rightarrow> js_string \<Rightarrow> 'cb world \<Rightarrow> 'cb world" where
  "console_error label reason w = w\<lparr>console := console w @ [(label, reason)]\<rparr>"

text \<open>
  \<^verbatim>\<open>update({ status }).eq('id', leadId)\<close>, when the write goes through: every row with
  that id gets the status. The prior status is not read.
\<close>

definition apply_status_update :: "js_string \<Rightarrow> js_string \<Rightarrow> Lead list \<Rightarrow> Lead list" where
  "apply_status_update leadId newStatus rows =
     map (\<lambda>l. if l_id l = leadId then l\<lparr>l_status := newStatus\<rparr> else l) rows"

section \<open>The Leads page\<close>

datatype view_mode = Kanban | ListMode

record Leads_page =
  leads :: "Lead list"
  notes' :: "Note list"
  loading :: bool
  viewMode :: view_mode
  selectedLead :: "Lead option"
  noteText :: js_string
  submitting :: bool

datatype Leads_callback = Leads_cb_fetchLeads | Leads_cb_fetchNotes

type_synonym Leads_state = "Leads_page \<times> Leads_callback world"

definition Leads_initial :: Leads_page where
  "Leads_initial = \<lparr>leads = [], notes' = [], loading = True, viewMode = Kanban,
     selectedLead = None, noteText = [], submitting = False\<rparr>"

fun Leads_fetchLeads :: "read_outcome \<Rightarrow> Leads_state \<Rightarrow> Leads_state settled" where
  "Leads_fetchLeads ro (p, w) =
     (let w' = log_request (SelectReq T_leads) w in
      case select_data ro (newest_first (tie_rank w') l_created_at (tbl_leads w')) of
        Fulfilled data \<Rightarrow>
          Fulfilled (case data of Some d \<Rightarrow> p\<lparr>leads := d\<rparr> | None \<Rightarrow> p, w')
      | Rejected m data \<Rightarrow> Rejected m (p, w'))"

fun Leads_fetchNotes :: "read_outcome \<Rightarrow> Leads_state \<Rightarrow> Leads_state settled" where
  "Leads_fetchNotes ro (p, w) =
     (let w' = log_request (SelectReq T_notes) w in
      case select_data ro (newest_first (tie_rank w') n_created_at (tbl_notes w')) of
        Fulfilled data \<Rightarrow>
          Fulfilled (case data of Some d \<Rightarrow> p\<lparr>notes' := d\<rparr> | None \<Rightarrow> p, w')
      | Rejected m data \<Rightarrow> Rejected m (p, w'))"

text \<open>
  \<^verbatim>\<open>fetchData\<close>: both fetches are started; \<^verbatim>\<open>setLoading(false)\<close> runs only when
  \<^verbatim>\<open>Promise.all\<close> fulfils.
\<close>

fun Leads_fetchData :: "read_outcome \<Rightarrow> read_outcome \<Rightarrow> Leads_state \<Rightarrow> Leads_state settled" where
  "Leads_fetchData rl rn (p, w) =
     (let r1 = Leads_fetchLeads rl (p\<lparr>loading := True\<rparr>, w);
          r2 = Leads_fetchNotes rn (state_of r1);
          (p2, w2) = state_of r2
      in case (r1, r2) of
           (Fulfilled _, Fulfilled _) \<Rightarrow> Fulfilled (p2\<lparr>loading := False\<rparr>, w2)
         | (Rejected m _, _) \<Rightarrow> Rejected m (p2, w2)
         | (_, Rejected m _) \<Rightarrow> Rejected m (p2, w2))"

fun Leads_updateLeadStatus ::
  "write_outcome \<Rightarrow> read_outcome \<Rightarrow> js_string \<Rightarrow> js_string \<Rightarrow> Leads_state \<Rightarrow> Leads_state" where
  "Leads_updateLeadStatus wo ro leadId newStatus (p, w) =
     (let w1 = log_request (UpdateStatusReq leadId newStatus) w in
      case wo of
        WriteOk \<Rightarrow>
          (let w2 = w1\<lparr>tbl_leads := apply_status_update leadId newStatus (tbl_leads w1)\<rparr> in
           case Leads_fetchLeads ro (p, w2) of
             Fulfilled s \<Rightarrow> s
           | Rejected m (p3, w3) \<Rightarrow>
               (p3, console_error (lit ''Error updating lead status:'') m w3))
      | WriteError m \<Rightarrow> (p, w1)
      | WriteRejects m \<Rightarrow> (p, console_error (lit ''Error updating lead status:'') m w1))"

text \<open>
  \<^verbatim>\<open>addNote\<close>. The id and the creation time of the inserted row are the database's
  defaults (\<open>new_id\<close>, \<open>stamp\<close>).
\<close>

fun Leads_addNote ::
  "write_outcome \<Rightarrow> read_outcome \<Rightarrow> js_string \<Rightarrow> nat \<Rightarrow> Leads_state \<Rightarrow> Leads_state" where
  "Leads_addNote wo ro new_id stamp (p, w) =
     (case selectedLead p of
        None \<Rightarrow> (p, w)
      | Some sl \<Rightarrow>
          if trim (noteText p) = [] then (p, w)
          else
            (let p1 = p\<lparr>submitting := True\<rparr>;
                 w1 = log_request
                        (InsertNoteReq (l_id sl) (noteText p) (lit ''current_user'')) w
             in case wo of
                  WriteOk \<Rightarrow>
                    (let w2 = w1\<lparr>tbl_notes := tbl_notes w1 @
                                 [\<lparr>n_id = new_id, n_lead_id = l_id sl,
                                   n_content = noteText p,
                                   n_created_by = lit ''current_user'',
                                   n_created_at = stamp\<rparr>]\<rparr>;
                         p2 = p1\<lparr>noteText := [], selectedLead := None\<rparr>
                     in case Leads_fetchNotes ro (p2, w2) of
                          Fulfilled (p3, w3) \<Rightarrow> (p3\<lparr>submitting := False\<rparr>, w3)
                        | Rejected m (p3, w3) \<Rightarrow>
                            (p3\<lparr>submitting := False\<rparr>,
                             console_error (lit ''Error adding note:'') m w3))
                | WriteError m \<Rightarrow> (p1\<lparr>submitting := False\<rparr>, w1)
                | WriteRejects m \<Rightarrow>
                    (p1\<lparr>submitting := False\<rparr>,
                     console_error (lit ''Error adding note:'') m w1)))"

definition getLeadsByStatus :: "Leads_page \<Rightarrow> js_string \<Rightarrow> Lead list" where
  "getLeadsByStatus p status = filter (\<lambda>lead. l_status lead = status) (leads p)"

text \<open>
  Realtime: the client hands a change event to the callback of every open subscription
  whose filter (\<^verbatim>\<open>{ event, schema, table }\<close>) the event matches. The promise a callback
  returns is dropped.
\<close>

definition matches :: "'cb subscription \<Rightarrow> change_event \<Rightarrow> bool" where
  "matches s ev \<longleftrightarrow>
     (case sub_event s of AnyEvent \<Rightarrow> True | OnlyEvent k \<Rightarrow> k = ev_kind ev)
     \<and> sub_schema s = ev_schema ev \<and> sub_table s = ev_table ev"

fun dispatch ::
  "('cb \<Rightarrow> read_outcome \<Rightarrow> 's \<Rightarrow> 's) \<Rightarrow> 'cb subscription list \<Rightarrow> read_outcome \<Rightarrow>
   change_event \<Rightarrow> 's \<Rightarrow> 's" where
  "dispatch run [] ro ev st = st"
| "dispatch run (s # ss) ro ev st =
     dispatch run ss ro ev (if matches s ev then run (sub_callback s) ro st else st)"

definition Leads_subscriptions :: "Leads_callback subscription list" where
  "Leads_subscriptions =
     [\<lparr>sub_channel = lit ''leads_changes'', sub_event = AnyEvent,
       sub_schema = lit ''public'', sub_table = T_leads,
       sub_callback = Leads_cb_fetchLeads\<rparr>,
      \<lparr>sub_channel = lit ''notes_changes'', sub_event = AnyEvent,
       sub_schema = lit ''public'', sub_table = T_notes,
       sub_callback = Leads_cb_fetchNotes\<rparr>]"

fun Leads_callback_run :: "Leads_callback \<Rightarrow> read_outcome \<Rightarrow> Leads_state \<Rightarrow> Leads_state" where
  "Leads_callback_run Leads_cb_fetchLeads ro st = state_of (Leads_fetchLeads ro st)"
| "Leads_callback_run Leads_cb_fetchNotes ro st = state_of (Leads_fetchNotes ro st)"

text \<open>The effect of \<^verbatim>\<open>useEffect(..., [])\<close> on mount, and its clean-up on unmount.\<close>

fun Leads_mount :: "read_outcome \<Rightarrow> read_outcome \<Rightarrow> Leads_state \<Rightarrow> Leads_state" where
  "Leads_mount rl rn (p, w) =
     (let (p', w') = state_of (Leads_fetchData rl rn (p, w))
      in (p', w'\<lparr>channels := channels w' @ Leads_subscriptions\<rparr>))"

fun Leads_unmount :: "Leads_state \<Rightarrow> Leads_state" where
  "Leads_unmount (p, w) =
     (p, w\<lparr>channels := remove1 (Leads_subscriptions ! 1)
                          (remove1 (Leads_subscriptions ! 0) (channels w))\<rparr>)"

fun Leads_deliver :: "change_event \<times> read_outcome \<Rightarrow> Leads_state \<Rightarrow> Leads_state" where
  "Leads_deliver (ev, ro) (p, w) = dispatch Leads_callback_run (channels w) ro ev (p, w)"

fun Leads_deliver_all :: "(change_event \<times> read_outcome) list \<Rightarrow> Leads_state \<Rightarrow> Leads_state" where
  "Leads_deliver_all [] st = st"
| "Leads_deliver_all (e # es) st = Leads_deliver_all es (Leads_deliver e st)"

text \<open>
  What the page shows. A card of the Recent Notes panel carries the title
  \<^verbatim>\<open>lead?.name || 'Unknown Lead'\<close>, the creation date and the content.
\<close>

record card =
  card_title :: js_string
  card_date :: nat
  card_text :: js_string

definition lead_title :: "Lead list \<Rightarrow> js_string \<Rightarrow> js_string" where
  "lead_title ls lead_id =
     (case find (\<lambda>l. l_id l = lead_id) ls of
        None \<Rightarrow> lit ''Unknown Lead''
      | Some lead \<Rightarrow> if l_name lead = [] then lit ''Unknown Lead'' else l_name lead)"

definition recentNotes :: "Leads_page \<Rightarrow> card list" where
  "recentNotes p =
     map (\<lambda>note. \<lparr>card_title = lead_title (leads p) (n_lead_id note),
                  card_date = n_created_at note, card_text = n_content note\<rparr>)
       (take 5 (notes' p))"

datatype Leads_body =
    KanbanBoard "Lead list"
  | ListView "Lead list" "Lead option" js_string bool "card list"

datatype Leads_view =
    Leads_Spinner
  | Leads_Screen nat nat nat nat Leads_body

definition Leads_render :: "Leads_page \<Rightarrow> Leads_view" where
  "Leads_render p =
     (if loading p then Leads_Spinner
      else Leads_Screen
             (length (getLeadsByStatus p (lit ''new'')))
             (length (getLeadsByStatus p (lit ''contacted'')))
             (length (getLeadsByStatus p (lit ''qualified'')))
             (length (getLeadsByStatus p (lit ''closed'')))
             (if viewMode p = Kanban then KanbanBoard (leads p)
              else ListView (leads p) (selectedLead p) (noteText p)
                     (submitting p \<or> trim (noteText p) = []) (recentNotes p)))"

section \<open>The HandleCustomer page\<close>

record HC_page =
  hc_leads :: "Lead list"
  hc_followUps :: "FollowUp list"
  hc_loading :: bool
  hc_selectedLead :: "Lead option"
  hc_followUpText :: js_string
  hc_submitting :: bool

datatype HC_callback = HC_cb_fetchLeads | HC_cb_fetchFollowUps

type_synonym HC_state = "HC_page \<times> HC_callback world"

definition HC_initial :: HC_page where
  "HC_initial = \<lparr>hc_leads = [], hc_followUps = [], hc_loading = True,
     hc_selectedLead = None, hc_followUpText = [], hc_submitting = False\<rparr>"

fun HC_fetchLeads :: "read_outcome \<Rightarrow> HC_state \<Rightarrow> HC_state settled" where
  "HC_fetchLeads ro (p, w) =
     (let w' = log_request (SelectReq T_leads) w in
      case select_data ro (newest_first (tie_rank w') l_created_at (tbl_leads w')) of
        Fulfilled data \<Rightarrow>
          Fulfilled (case data of Some d \<Rightarrow> p\<lparr>hc_leads := d\<rparr> | None \<Rightarrow> p, w')
      | Rejected m data \<Rightarrow> Rejected m (p, w'))"

fun HC_fetchFollowUps :: "read_outcome \<Rightarrow> HC_state \<Rightarrow> HC_state settled" where
  "HC_fetchFollowUps ro (p, w) =
     (let w' = log_request (SelectReq T_follow_ups) w in
      case select_data ro (newest_first (tie_rank w') f_created_at (tbl_follow_ups w')) of
        Fulfilled data \<Rightarrow>
          Fulfilled (case data of Some d \<Rightarrow> p\<lparr>hc_followUps := d\<rparr> | None \<Rightarrow> p, w')
      | Rejected m data \<Rightarrow> Rejected m (p, w'))"

fun HC_fetchData :: "read_outcome \<Rightarrow> read_outcome \<Rightarrow> HC_state \<Rightarrow> HC_state settled" where
  "HC_fetchData rl rf (p, w) =
     (let r1 = HC_fetchLeads rl (p\<lparr>hc_loading := True\<rparr>, w);
          r2 = HC_fetchFollowUps rf (state_of r1);
          (p2, w2) = state_of r2
      in case (r1, r2) of
           (Fulfilled _, Fulfilled _) \<Rightarrow> Fulfilled (p2\<lparr>hc_loading := False\<rparr>, w2)
         | (Rejected m _, _) \<Rightarrow> Rejected m (p2, w2)
         | (_, Rejected m _) \<Rightarrow> Rejected m (p2, w2))"

text \<open>
  \<^verbatim>\<open>handleFollowUp\<close>. \<open>now\<close> is the client's clock (\<^verbatim>\<open>new Date().toISOString()\<close>);
  \<open>new_id\<close> and \<open>stamp\<close> are the database's defaults for the inserted row.
\<close>

fun HC_handleFollowUp ::
  "write_outcome \<Rightarrow> read_outcome \<Rightarrow> js_string \<Rightarrow> nat \<Rightarrow> nat \<Rightarrow> HC_state \<Rightarrow> HC_state" where
  "HC_handleFollowUp wo ro new_id stamp now (p, w) =
     (case hc_selectedLead p of
        None \<Rightarrow> (p, w)
      | Some sl \<Rightarrow>
          if trim (hc_followUpText p) = [] then (p, w)
          else
            (let p1 = p\<lparr>hc_submitting := True\<rparr>;
                 w1 = log_request
                        (InsertFollowUpReq (l_id sl) (hc_followUpText p) now) w
             in case wo of
                  WriteOk \<Rightarrow>
                    (let w2 = w1\<lparr>tbl_follow_ups := tbl_follow_ups w1 @
                                 [\<lparr>f_id = new_id, f_lead_id = l_id sl,
                                   f_notes = hc_followUpText p,
                                   f_follow_up_date = now,
                                   f_created_at = stamp\<rparr>]\<rparr>;
                         p2 = p1\<lparr>hc_followUpText := [], hc_selectedLead := None\<rparr>
                     in case HC_fetchFollowUps ro (p2, w2) of
                          Fulfilled (p3, w3) \<Rightarrow> (p3\<lparr>hc_submitting := False\<rparr>, w3)
                        | Rejected m (p3, w3) \<Rightarrow>
                            (p3\<lparr>hc_submitting := False\<rparr>,
                             console_error (lit ''Error adding follow-up:'') m w3))
                | WriteError m \<Rightarrow> (p1\<lparr>hc_submitting := False\<rparr>, w1)
                | WriteRejects m \<Rightarrow>
                    (p1\<lparr>hc_submitting := False\<rparr>,
                     console_error (lit ''Error adding follow-up:'') m w1)))"

fun HC_updateLeadStatus ::
  "write_outcome \<Rightarrow> read_outcome \<Rightarrow> js_string \<Rightarrow> js_string \<Rightarrow> HC_state \<Rightarrow> HC_state" where
  "HC_updateLeadStatus wo ro leadId status (p, w) =
     (let w1 = log_request (UpdateStatusReq leadId status) w in
      case wo of
        WriteOk \<Rightarrow>
          (let w2 = w1\<lparr>tbl_leads := apply_status_update leadId status (tbl_leads w1)\<rparr> in
           case HC_fetchLeads ro (p, w2) of
             Fulfilled s \<Rightarrow> s
           | Rejected m (p3, w3) \<Rightarrow>
               (p3, console_error (lit ''Error updating lead status:'') m w3))
      | WriteError m \<Rightarrow> (p, w1)
      | WriteRejects m \<Rightarrow> (p, console_error (lit ''Error updating lead status:'') m w1))"

definition HC_subscriptions :: "HC_callback subscription list" where
  "HC_subscriptions =
     [\<lparr>sub_channel = lit ''leads_changes'', sub_event = AnyEvent,
       sub_schema = lit ''public'', sub_table = T_leads,
       sub_callback = HC_cb_fetchLeads\<rparr>,
      \<lparr>sub_channel = lit ''follow_ups_changes'', sub_event = AnyEvent,
       sub_schema = lit ''public'', sub_table = T_follow_ups,
       sub_callback = HC_cb_fetchFollowUps\<rparr>]"

fun HC_callback_run :: "HC_callback \<Rightarrow> read_outcome \<Rightarrow> HC_state \<Rightarrow> HC_state" where
  "HC_callback_run HC_cb_fetchLeads ro st = state_of (HC_fetchLeads ro st)"
| "HC_callback_run HC_cb_fetchFollowUps ro st = state_of (HC_fetchFollowUps ro st)"

fun HC_mount :: "read_outcome \<Rightarrow> read_outcome \<Rightarrow> HC_state \<Rightarrow> HC_state" where
  "HC_mount rl rf (p, w) =
     (let (p', w') = state_of (HC_fetchData rl rf (p, w))
      in (p', w'\<lparr>channels := channels w' @ HC_subscriptions\<rparr>))"

fun HC_unmount :: "HC_state \<Rightarrow> HC_state" where
  "HC_unmount (p, w) =
     (p, w\<lparr>channels := remove1 (HC_subscriptions ! 1)
                          (remove1 (HC_subscriptions ! 0) (channels w))\<rparr>)"

fun HC_deliver :: "change_event \<times> read_outcome \<Rightarrow> HC_state \<Rightarrow> HC_state" where
  "HC_deliver (ev, ro) (p, w) = dispatch HC_callback_run (channels w) ro ev (p, w)"

fun HC_deliver_all :: "(change_event \<times> read_outcome) list \<Rightarrow> HC_state \<Rightarrow> HC_state" where
  "HC_deliver_all [] st = st"
| "HC_deliver_all (e # es) st = HC_deliver_all es (HC_deliver e st)"

definition recentFollowUps :: "HC_page \<Rightarrow> card list" where
  "recentFollowUps p =
     map (\<lambda>followUp. \<lparr>card_title = lead_title (hc_leads p) (f_lead_id followUp),
                      card_date = f_created_at followUp, card_text = f_notes followUp\<rparr>)
       (take 10 (hc_followUps p))"

datatype HC_view =
    HC_Spinner
  | HC_Screen "Lead list" "Lead option" js_string bool "card list"

definition HC_render :: "HC_page \<Rightarrow> HC_view" where
  "HC_render p =
     (if hc_loading p then HC_Spinner
      else HC_Screen (hc_leads p) (hc_selectedLead p) (hc_followUpText p)
             (hc_submitting p \<or> trim (hc_followUpText p) = []) (recentFollowUps p))"

text \<open>
  A change event is delivered on the channel of table \<open>T\<close> when it is an event of
  \<open>T\<close> in the schema \<^verbatim>\<open>public\<close>; \<open>refetches T\<close> counts the snapshot requests for \<open>T\<close>
  issued so far.
\<close>

definition delivered_on :: "table \<Rightarrow> change_event \<times> read_outcome \<Rightarrow> bool" where
  "delivered_on T e \<longleftrightarrow> ev_schema (fst e) = lit ''public'' \<and> ev_table (fst e) = T"

definition refetches :: "table \<Rightarrow> 'cb world \<Rightarrow> nat" where
  "refetches T w = count_list (requests w) (SelectReq T)"

text \<open>
  The four stats cards of the Leads page show \<^verbatim>\<open>getLeadsByStatus(label).length\<close> for
  these labels; \<open>stats_total\<close> is the sum of the four numbers.
\<close>

definition status_labels :: "js_string list" where
  "status_labels = [lit ''new'', lit ''contacted'', lit ''qualified'', lit ''closed'']"

definition stats_total :: "Leads_page \<Rightarrow> nat" where
  "stats_total p = sum_list (map (\<lambda>s. length (getLeadsByStatus p s)) status_labels)"

section \<open>The SQL migration\<close>

text \<open>
  The statements of \<^verbatim>\<open>20250804081132_blue_unit.sql\<close>, in the order of the file, and
  what PostgreSQL does with each. A row maps column names to values; a database
  holds the rows of each table, the members of each publication and the row-level
  policies. \<^verbatim>\<open>ALTER PUBLICATION ... ADD TABLE\<close> and \<^verbatim>\<open>CREATE POLICY\<close> raise
  \<^verbatim>\<open>duplicate_object\<close> when the member or the policy is already there.
\<close>

datatype sql_value = Text string | Boolean bool

type_synonym sql_row = "string \<rightharpoonup> sql_value"

datatype policy_command = ForAll | ForSelect | ForInsert | ForUpdate | ForDelete

datatype using_expr = UsingTrue | UsingExists string

record policy =
  pol_name :: string
  pol_table :: table
  pol_command :: policy_command
  pol_using :: using_expr

datatype stmt =
    DeleteFrom table
  | InsertOnConflictUpdate table "string list" "sql_value list" string "string list"
  | AlterPublicationAddTable string table
  | DropPolicyIfExists string table
  | CreatePolicy string table policy_command using_expr

datatype sql_error = DuplicateObject string

record database =
  rows_of :: "table \<Rightarrow> sql_row list"
  publications :: "(string \<times> table) list"
  policies :: "policy list"

text \<open>
  \<^verbatim>\<open>INSERT ... ON CONFLICT (c) DO UPDATE SET x = EXCLUDED.x, ...\<close>: a row whose
  column \<open>c\<close> equals the proposed one takes the proposed values of the listed
  columns; without such a row the proposed row is inserted.
\<close>

definition upsert ::
  "string list \<Rightarrow> sql_value list \<Rightarrow> string \<Rightarrow> string list \<Rightarrow> sql_row list \<Rightarrow> sql_row list" where
  "upsert cols vals conflict set_cols rows =
     (let excluded = map_of (zip cols vals) in
      if \<exists>r \<in> set rows. r conflict = excluded conflict
      then map (\<lambda>r. if r conflict = excluded conflict
                     then r ++ (excluded |` set set_cols) else r) rows
      else rows @ [excluded])"

fun exec_stmt :: "stmt \<Rightarrow> database \<Rightarrow> sql_error + database" where
  "exec_stmt (DeleteFrom t) db = Inr (db\<lparr>rows_of := (rows_of db)(t := [])\<rparr>)"
| "exec_stmt (InsertOnConflictUpdate t cols vals conflict set_cols) db =
     Inr (db\<lparr>rows_of := (rows_of db)(t := upsert cols vals conflict set_cols (rows_of db t))\<rparr>)"
| "exec_stmt (AlterPublicationAddTable pub t) db =
     (if (pub, t) \<in> set (publications db) then Inl (DuplicateObject pub)
      else Inr (db\<lparr>publications := publications db @ [(pub, t)]\<rparr>))"
| "exec_stmt (DropPolicyIfExists name t) db =
     Inr (db\<lparr>policies := filter (\<lambda>q. \<not> (pol_name q = name \<and> pol_table q = t)) (policies db)\<rparr>)"
| "exec_stmt (CreatePolicy name t cmd using) db =
     (if \<exists>q \<in> set (policies db). pol_name q = name \<and> pol_table q = t
      then Inl (DuplicateObject name)
      else Inr (db\<lparr>policies := policies db @
                  [\<lparr>pol_name = name, pol_table = t, pol_command = cmd, pol_using = using\<rparr>]\<rparr>))"

fun exec_all :: "stmt list \<Rightarrow> database \<Rightarrow> sql_error + database" where
  "exec_all [] db = Inr db"
| "exec_all (s # ss) db =
     (case exec_stmt s db of Inl e \<Rightarrow> Inl e | Inr db' \<Rightarrow> exec_all ss db')"

definition cleanup :: "stmt list" where
  "cleanup =
     [DeleteFrom T_notes, DeleteFrom T_handle_customer_data, DeleteFrom T_leads,
      DeleteFrom T_targets, DeleteFrom T_packages, DeleteFrom T_products,
      DeleteFrom T_users]"

definition seed_admin :: stmt where
  "seed_admin =
     InsertOnConflictUpdate T_users
       [''id'', ''username'', ''nama_lengkap'', ''role'', ''nomor_wa'', ''aktif'', ''avatar'']
       [Text ''550e8400-e29b-41d4-a716-446655440001'', Text ''admin'', Text ''Super Admin'',
        Text ''superadmin'', Text ''6281234567890'', Boolean True,
        Text ''https://i.pravatar.cc/150?u=admin'']
       ''id''
       [''username'', ''nama_lengkap'', ''role'', ''nomor_wa'', ''aktif'', ''avatar'']"

definition realtime :: "stmt list" where
  "realtime =
     [AlterPublicationAddTable ''supabase_realtime'' T_users,
      AlterPublicationAddTable ''supabase_realtime'' T_products,
      AlterPublicationAddTable ''supabase_realtime'' T_packages,
      AlterPublicationAddTable ''supabase_realtime'' T_leads,
      AlterPublicationAddTable ''supabase_realtime'' T_notes,
      AlterPublicationAddTable ''supabase_realtime'' T_targets,
      AlterPublicationAddTable ''supabase_realtime'' T_handle_customer_data]"

definition read_policies :: "stmt list" where
  "read_policies =
     [DropPolicyIfExists ''Enable real-time for users'' T_users,
      CreatePolicy ''Enable real-time for users'' T_users ForSelect UsingTrue,
      DropPolicyIfExists ''Enable real-time for products'' T_products,
      CreatePolicy ''Enable real-time for products'' T_products ForSelect UsingTrue,
      DropPolicyIfExists ''Enable real-time for packages'' T_packages,
      CreatePolicy ''Enable real-time for packages'' T_packages ForSelect UsingTrue,
      DropPolicyIfExists ''Enable real-time for leads'' T_leads,
      CreatePolicy ''Enable real-time for leads'' T_leads ForSelect
        (UsingExists (''SELECT 1 FROM users WHERE id = auth.uid() AND ('' @
           ''role = 'superadmin' OR (role = 'admin' AND id = leads.assigned_to) OR '' @
           ''role = 'hc')'')),
      DropPolicyIfExists ''Enable real-time for notes'' T_notes,
      CreatePolicy ''Enable real-time for notes'' T_notes ForSelect
        (UsingExists (''SELECT 1 FROM leads l JOIN users u ON u.id = auth.uid() '' @
           ''WHERE l.id = notes.lead_id AND (u.role = 'superadmin' OR '' @
           ''(u.role = 'admin' AND u.id = l.assigned_to) OR u.role = 'hc')'')),
      DropPolicyIfExists ''Enable real-time for targets'' T_targets,
      CreatePolicy ''Enable real-time for targets'' T_targets ForSelect UsingTrue,
      DropPolicyIfExists ''Enable real-time for handle_customer_data'' T_handle_customer_data,
      CreatePolicy ''Enable real-time for handle_customer_data'' T_handle_customer_data
        ForSelect
        (UsingExists (''SELECT 1 FROM users WHERE id = auth.uid() '' @
           ''AND role IN ('superadmin', 'hc')''))]"

definition migration :: "stmt list" where
  "migration = cleanup @ [seed_admin] @ realtime @ read_policies"

definition migrated_tables :: "table list" where
  "migrated_tables =
     [T_notes, T_handle_customer_data, T_leads, T_targets, T_packages, T_products, T_users]"

definition admin_row :: sql_row where
  "admin_row =
     [''id'' \<mapsto> Text ''550e8400-e29b-41d4-a716-446655440001'',
      ''username'' \<mapsto> Text ''admin'',
      ''nama_lengkap'' \<mapsto> Text ''Super Admin'',
      ''role'' \<mapsto> Text ''superadmin'',
      ''nomor_wa'' \<mapsto> Text ''6281234567890'',
      ''aktif'' \<mapsto> Boolean True,
      ''avatar'' \<mapsto> Text ''https://i.pravatar.cc/150?u=admin'']"

text \<open>
  What a list of statements targets: the tables it deletes from, the publication
  members it adds, the rows it proposes, the policies it creates and the policies it
  drops first. \<open>migrated db\<close> is the database the migration leaves.
\<close>

fun delete_targets :: "stmt list \<Rightarrow> table list" where
  "delete_targets [] = []"
| "delete_targets (DeleteFrom t # ss) = t # delete_targets ss"
| "delete_targets (s # ss) = delete_targets ss"

fun published_tables :: "stmt list \<Rightarrow> (string \<times> table) list" where
  "published_tables [] = []"
| "published_tables (AlterPublicationAddTable pub t # ss) = (pub, t) # published_tables ss"
| "published_tables (s # ss) = published_tables ss"

fun created_policies :: "stmt list \<Rightarrow> policy list" where
  "created_policies [] = []"
| "created_policies (CreatePolicy name t cmd using # ss) =
     \<lparr>pol_name = name, pol_table = t, pol_command = cmd, pol_using = using\<rparr>
       # created_policies ss"
| "created_policies (s # ss) = created_policies ss"

fun seeded_rows :: "stmt list \<Rightarrow> (table \<times> sql_row) list" where
  "seeded_rows [] = []"
| "seeded_rows (InsertOnConflictUpdate t cols vals conflict set_cols # ss) =
     (t, map_of (zip cols vals)) # seeded_rows ss"
| "seeded_rows (s # ss) = seeded_rows ss"

definition replaced_by :: "stmt list \<Rightarrow> policy \<Rightarrow> bool" where
  "replaced_by ss q \<longleftrightarrow> DropPolicyIfExists (pol_name q) (pol_table q) \<in> set ss"

definition migrated :: "database \<Rightarrow> database" where
  "migrated db =
     \<lparr>rows_of = (\<lambda>t. if t = T_users then [admin_row]
                       else if t \<in> set migrated_tables then [] else rows_of db t),
      publications = publications db @ published_tables migration,
      policies = filter (\<lambda>q. \<not> replaced_by migration q) (policies db)
                   @ created_policies migration\<rparr>"

section \<open>Concrete states\<close>

text \<open>One lead, closed, on both pages and in the table; a note text ready to send.\<close>

definition sample_lead :: Lead where
  "sample_lead = \<lparr>l_id = lit ''L1'', l_name = lit ''Ayu'', l_email = lit ''ayu@example.com'',
     l_phone = lit ''0811'', l_product = None, l_status = lit ''closed'', l_created_at = 10\<rparr>"

definition sample_world :: "'cb world" where
  "sample_world = \<lparr>tbl_leads = [sample_lead], tbl_notes = [], tbl_follow_ups = [],
     requests = [], console = [], channels = [], tie_rank = (\<lambda>i. 0)\<rparr>"

definition sample_Leads_page :: Leads_page where
  "sample_Leads_page = \<lparr>leads = [sample_lead], notes' = [], loading = False,
     viewMode = ListMode, selectedLead = Some sample_lead, noteText = lit ''call back'',
     submitting = False\<rparr>"

definition sample_HC_page :: HC_page where
  "sample_HC_page = \<lparr>hc_leads = [sample_lead], hc_followUps = [], hc_loading = False,
     hc_selectedLead = Some sample_lead, hc_followUpText = lit ''call back'',
     hc_submitting = False\<rparr>"

text \<open>A note and a follow-up whose lead is not among the loaded leads.\<close>

definition orphan_note :: Note where
  "orphan_note = \<lparr>n_id = lit ''N7'', n_lead_id = lit ''L9'', n_content = lit ''hello'',
     n_created_by = lit ''current_user'', n_created_at = 30\<rparr>"

definition orphan_followUp :: FollowUp where
  "orphan_followUp = \<lparr>f_id = lit ''F7'', f_lead_id = lit ''L9'', f_notes = lit ''hello'',
     f_follow_up_date = 31, f_created_at = 30\<rparr>"

text \<open>Four change events: two on \<^verbatim>\<open>leads\<close>, one on \<^verbatim>\<open>notes\<close>, one on \<^verbatim>\<open>follow_ups\<close>.\<close>

definition sample_events :: "(change_event \<times> read_outcome) list" where
  "sample_events =
     [(\<lparr>ev_kind = INSERT, ev_schema = lit ''public'', ev_table = T_leads\<rparr>, ReadOk),
      (\<lparr>ev_kind = DELETE, ev_schema = lit ''public'', ev_table = T_notes\<rparr>, ReadNoData),
      (\<lparr>ev_kind = UPDATE, ev_schema = lit ''public'', ev_table = T_leads\<rparr>, ReadOk),
      (\<lparr>ev_kind = INSERT, ev_schema = lit ''public'', ev_table = T_follow_ups\<rparr>, ReadOk)]"

text \<open>
  A database before the migration: two users (one with the administrator's id), rows
  in every table, \<^verbatim>\<open>follow_ups\<close> already published, and an older policy under the name
  the migration uses for \<^verbatim>\<open>users\<close>.
\<close>

definition sample_database :: database where
  "sample_database =
     \<lparr>rows_of = (\<lambda>t. if t = T_users
                       then [[''id'' \<mapsto> Text ''550e8400-e29b-41d4-a716-446655440001'',
                              ''username'' \<mapsto> Text ''demo''],
                             [''id'' \<mapsto> Text ''u-2'', ''username'' \<mapsto> Text ''budi'']]
                       else if t = T_follow_ups then [[''id'' \<mapsto> Text ''f-1'']]
                       else [[''id'' \<mapsto> Text ''x'']]),
      publications = [(''supabase_realtime'', T_follow_ups)],
      policies = [\<lparr>pol_name = ''Enable real-time for users'', pol_table = T_users,
                   pol_command = ForAll, pol_using = UsingTrue\<rparr>]\<rparr>"

section \<open>The guard of the two forms\<close>

lemma dropWhile_all_iff: "(\<forall>x \<in> set (dropWhile P xs). P x) \<longleftrightarrow> (\<forall>x \<in> set xs. P x)"
  by (induction xs) auto

lemma trim_empty_iff: "trim s = [] \<longleftrightarrow> blank s"
proof -
  have "trim s = [] \<longleftrightarrow> (\<forall>x \<in> set (rev (dropWhile is_white_space s)). is_white_space x)"
    by (simp add: trim_def)
  also have "\<dots> \<longleftrightarrow> (\<forall>x \<in> set s. is_white_space x)"
    by (simp add: dropWhile_all_iff)
  finally show ?thesis
    by (simp add: blank_def list_all_iff)
qed

lemma blank_sample: "blank [0x20, 0x09, 0xA0, 0x2003]" "\<not> blank (lit ''call back'')"
  by (simp_all add: blank_def is_white_space_def lit_def)

text \<open>
  C4. When no lead is selected, or the text is empty or whitespace-only,
  \<^verbatim>\<open>addNote\<close> and \<^verbatim>\<open>handleFollowUp\<close> return at once: no request is issued and the
  page state (list, text, selected lead, submitting flag), the tables and the console
  are what they were.
\<close>

theorem guard_leaves_everything_unchanged:
  "(selectedLead p = None \<or> blank (noteText p) \<longrightarrow>
      Leads_addNote wo ro new_id stamp (p, w) = (p, w))
   \<and> (hc_selectedLead q = None \<or> blank (hc_followUpText q) \<longrightarrow>
      HC_handleFollowUp wo' ro' new_id' stamp' now (q, v) = (q, v))"
  by (auto simp: trim_empty_iff split: option.splits)

theorem guard_leaves_everything_unchanged_witness:
  "blank [0x20, 0x09, 0xA0, 0x2003]
   \<and> Leads_addNote WriteOk ReadOk (lit ''N1'') 20
       (sample_Leads_page\<lparr>noteText := [0x20, 0x09, 0xA0, 0x2003]\<rparr>, sample_world)
     = (sample_Leads_page\<lparr>noteText := [0x20, 0x09, 0xA0, 0x2003]\<rparr>, sample_world)
   \<and> HC_handleFollowUp WriteOk ReadOk (lit ''F1'') 20 21
       (sample_HC_page\<lparr>hc_selectedLead := None\<rparr>, sample_world)
     = (sample_HC_page\<lparr>hc_selectedLead := None\<rparr>, sample_world)"
  using guard_leaves_everything_unchanged
    [of "sample_Leads_page\<lparr>noteText := [0x20, 0x09, 0xA0, 0x2003]\<rparr>"
        WriteOk ReadOk "lit ''N1''" 20 sample_world
        "sample_HC_page\<lparr>hc_selectedLead := None\<rparr>" WriteOk ReadOk "lit ''F1''" 20 21 sample_world]
  by (simp add: blank_sample)

lemma mset_newest_first: "mset (newest_first rank created xs) = mset xs"
proof -
  have "mset (newest_first rank created xs) = image_mset snd (mset (enumerate 0 xs))"
    by (simp add: newest_first_def)
  also have "\<dots> = mset (map snd (enumerate 0 xs))"
    by (simp only: mset_map)
  finally show ?thesis
    by (simp only: map_snd_enumerate)
qed

lemma set_newest_first: "set (newest_first rank created xs) = set xs"
  using mset_newest_first [of rank created xs] by (metis set_mset_mset)

lemma newest_first_descending:
  "sorted_wrt (\<lambda>a b. created b \<le> created a) (newest_first rank created xs)"
proof -
  let ?key = "\<lambda>(i, x). (created x, rank i)"
  let ?ys = "sort_key ?key (enumerate 0 xs)"
  have "sorted (map ?key ?ys)"
    by (rule sorted_sort_key)
  then have "sorted_wrt (\<lambda>a b. ?key a \<le> ?key b) ?ys"
    by (simp add: sorted_map)
  then have "sorted_wrt (\<lambda>a b. created (snd a) \<le> created (snd b)) ?ys"
    by (rule sorted_wrt_mono_rel [rotated]) (auto simp: less_eq_prod_def)
  then have "sorted_wrt (\<lambda>a b. created (snd b) \<le> created (snd a)) (rev ?ys)"
    by (simp add: sorted_wrt_rev)
  then show ?thesis
    by (simp add: newest_first_def sorted_wrt_map)
qed

lemma newest_first_ties:
  "newest_first (\<lambda>i. i) (\<lambda>x. 7) [1, 2 :: nat] = [2, 1]"
  "newest_first (\<lambda>i. 1 - i) (\<lambda>x. 7) [1, 2 :: nat] = [1, 2]"
  by (simp_all add: newest_first_def)

section \<open>Adding a note\<close>

text \<open>
  C1, as amended. With a lead selected and a text that is not blank, when the insert
  goes through, \<^verbatim>\<open>noteText\<close> is empty and \<^verbatim>\<open>selectedLead\<close> is null afterwards. When
  the refetch that follows returns rows, the notes list is the snapshot of the table:
  the rows the table had and the inserted note, newest first, so it contains the
  inserted note. When the refetch returns no data or rejects, the notes list is what it
  was before.
\<close>

theorem addNote_success:
  assumes "selectedLead p = Some sl" and "\<not> blank (noteText p)"
    and "Leads_addNote WriteOk ro new_id stamp (p, w) = (p', w')"
  shows "noteText p' = [] \<and> selectedLead p' = None
    \<and> (ro = ReadOk \<longrightarrow>
         mset (notes' p') =
           add_mset \<lparr>n_id = new_id, n_lead_id = l_id sl, n_content = noteText p,
                     n_created_by = lit ''current_user'', n_created_at = stamp\<rparr>
             (mset (tbl_notes w))
         \<and> sorted_wrt (\<lambda>a b. n_created_at b \<le> n_created_at a) (notes' p')
         \<and> \<lparr>n_id = new_id, n_lead_id = l_id sl, n_content = noteText p,
             n_created_by = lit ''current_user'', n_created_at = stamp\<rparr> \<in> set (notes' p'))
    \<and> (ro \<noteq> ReadOk \<longrightarrow> notes' p' = notes' p)"
  using assms
  by (cases ro)
     (auto simp: trim_empty_iff log_request_def console_error_def set_newest_first
        mset_newest_first newest_first_descending)

lemma sample_addNote_ok:
  "Leads_addNote WriteOk ReadOk (lit ''N1'') 20 (sample_Leads_page, sample_world) =
     (sample_Leads_page\<lparr>notes' := [\<lparr>n_id = lit ''N1'', n_lead_id = lit ''L1'',
          n_content = lit ''call back'', n_created_by = lit ''current_user'', n_created_at = 20\<rparr>],
        noteText := [], selectedLead := None\<rparr>,
      sample_world\<lparr>tbl_notes := [\<lparr>n_id = lit ''N1'', n_lead_id = lit ''L1'',
          n_content = lit ''call back'', n_created_by = lit ''current_user'', n_created_at = 20\<rparr>],
        requests := [InsertNoteReq (lit ''L1'') (lit ''call back'') (lit ''current_user''),
                     SelectReq T_notes]\<rparr>)"
  by (simp add: sample_Leads_page_def sample_world_def sample_lead_def trim_empty_iff blank_sample
      log_request_def newest_first_def)

theorem addNote_success_witness:
  "selectedLead sample_Leads_page = Some sample_lead \<and> \<not> blank (noteText sample_Leads_page)
   \<and> noteText (fst (Leads_addNote WriteOk ReadOk (lit ''N1'') 20 (sample_Leads_page, sample_world))) = []
   \<and> selectedLead (fst (Leads_addNote WriteOk ReadOk (lit ''N1'') 20 (sample_Leads_page, sample_world))) = None
   \<and> \<lparr>n_id = lit ''N1'', n_lead_id = l_id sample_lead, n_content = noteText sample_Leads_page,
        n_created_by = lit ''current_user'', n_created_at = 20\<rparr>
       \<in> set (notes' (fst (Leads_addNote WriteOk ReadOk (lit ''N1'') 20 (sample_Leads_page, sample_world))))
   \<and> notes' (fst (Leads_addNote WriteOk ReadNoData (lit ''N1'') 20
                    (sample_Leads_page\<lparr>notes' := [orphan_note]\<rparr>, sample_world)))
       = [orphan_note]"
proof -
  let ?stale = "sample_Leads_page\<lparr>notes' := [orphan_note]\<rparr>"
  have sel: "selectedLead sample_Leads_page = Some sample_lead"
    "selectedLead ?stale = Some sample_lead"
    by (simp_all add: sample_Leads_page_def)
  have nonblank: "\<not> blank (noteText sample_Leads_page)" "\<not> blank (noteText ?stale)"
    by (simp_all add: sample_Leads_page_def blank_sample)
  have before: "notes' ?stale = [orphan_note]" "ReadNoData \<noteq> ReadOk"
    by simp_all
  show ?thesis
    using sel(1) nonblank(1) before
      addNote_success [OF sel(1) nonblank(1) surjective_pairing,
        of ReadOk "lit ''N1''" 20 sample_world]
      addNote_success [OF sel(2) nonblank(2) surjective_pairing,
        of ReadNoData "lit ''N1''" 20 sample_world]
    by metis
qed

text \<open>
  C1 as stated fails: the insert goes through, the refetch resolves with
  \<^verbatim>\<open>data = null\<close>, and the notes list stays as it was, without the new note.
\<close>

theorem addNote_stale_after_failed_refetch:
  "selectedLead sample_Leads_page = Some sample_lead \<and> \<not> blank (noteText sample_Leads_page)
   \<and> \<lparr>n_id = lit ''N1'', n_lead_id = l_id sample_lead, n_content = noteText sample_Leads_page,
        n_created_by = lit ''current_user'', n_created_at = 20\<rparr>
       \<notin> set (notes' (fst (Leads_addNote WriteOk ReadNoData (lit ''N1'') 20
                             (sample_Leads_page, sample_world))))"
  by (simp add: sample_Leads_page_def sample_world_def sample_lead_def trim_empty_iff blank_sample
      log_request_def newest_first_def)

section \<open>Updating a lead's status\<close>

lemma Leads_updateLeadStatus_requests:
  "requests (snd (Leads_updateLeadStatus wo ro leadId newStatus (p, w))) =
     requests w @ UpdateStatusReq leadId newStatus #
       (if wo = WriteOk then [SelectReq T_leads] else [])"
  by (cases wo; cases ro) (simp_all add: log_request_def console_error_def)

lemma Leads_updateLeadStatus_table:
  "tbl_leads (snd (Leads_updateLeadStatus wo ro leadId newStatus (p, w))) =
     (if wo = WriteOk then apply_status_update leadId newStatus (tbl_leads w) else tbl_leads w)"
  by (cases wo; cases ro) (simp_all add: log_request_def console_error_def)

lemma Leads_updateLeadStatus_page:
  "leads (fst (Leads_updateLeadStatus WriteOk ReadOk leadId newStatus (p, w))) =
     newest_first (tie_rank w) l_created_at (apply_status_update leadId newStatus (tbl_leads w))"
  by (simp add: log_request_def)

lemma HC_updateLeadStatus_requests:
  "requests (snd (HC_updateLeadStatus wo ro leadId newStatus (p, w))) =
     requests w @ UpdateStatusReq leadId newStatus #
       (if wo = WriteOk then [SelectReq T_leads] else [])"
  by (cases wo; cases ro) (simp_all add: log_request_def console_error_def)

lemma HC_updateLeadStatus_table:
  "tbl_leads (snd (HC_updateLeadStatus wo ro leadId newStatus (p, w))) =
     (if wo = WriteOk then apply_status_update leadId newStatus (tbl_leads w) else tbl_leads w)"
  by (cases wo; cases ro) (simp_all add: log_request_def console_error_def)

lemma HC_updateLeadStatus_page:
  "hc_leads (fst (HC_updateLeadStatus WriteOk ReadOk leadId newStatus (p, w))) =
     newest_first (tie_rank w) l_created_at (apply_status_update leadId newStatus (tbl_leads w))"
  by (simp add: log_request_def)

lemma apply_status_update_member:
  "l \<in> set rows \<Longrightarrow> l_id l = leadId \<Longrightarrow>
     l\<lparr>l_status := newStatus\<rparr> \<in> set (apply_status_update leadId newStatus rows)"
  by (force simp: apply_status_update_def)


lemma Leads_updateLeadStatus_accepts:
  assumes "l \<in> set (tbl_leads w)" and "l_id l = leadId"
  shows "l\<lparr>l_status := newStatus\<rparr>
           \<in> set (tbl_leads (snd (Leads_updateLeadStatus WriteOk ro leadId newStatus (p, w))))"
    and "l\<lparr>l_status := newStatus\<rparr>
           \<in> set (leads (fst (Leads_updateLeadStatus WriteOk ReadOk leadId newStatus (p, w))))"
  using apply_status_update_member [OF assms, of newStatus]
  by (simp_all add: Leads_updateLeadStatus_table Leads_updateLeadStatus_page set_newest_first
        del: Leads_updateLeadStatus.simps)

lemma HC_updateLeadStatus_accepts:
  assumes "l \<in> set (tbl_leads w)" and "l_id l = leadId"
  shows "l\<lparr>l_status := newStatus\<rparr>
           \<in> set (tbl_leads (snd (HC_updateLeadStatus WriteOk ro leadId newStatus (p, w))))"
    and "l\<lparr>l_status := newStatus\<rparr>
           \<in> set (hc_leads (fst (HC_updateLeadStatus WriteOk ReadOk leadId newStatus (p, w))))"
  using apply_status_update_member [OF assms, of newStatus]
  by (simp_all add: HC_updateLeadStatus_table HC_updateLeadStatus_page set_newest_first
        del: HC_updateLeadStatus.simps)

text \<open>
  C2. On both pages \<^verbatim>\<open>updateLeadStatus\<close> issues the update for the given lead and
  target status whatever the page and the tables hold (followed by a refetch of the
  leads when the write reports no error), and a write that goes through gives every
  row with that id the target status whatever its status was: nothing in the
  operation reads the prior status. From \<^verbatim>\<open>closed\<close> to \<^verbatim>\<open>new\<close> is the witness.
\<close>

theorem status_update_unconstrained:
  "requests (snd (Leads_updateLeadStatus wo ro leadId newStatus (p, w))) =
     requests w @ UpdateStatusReq leadId newStatus #
       (if wo = WriteOk then [SelectReq T_leads] else [])
   \<and> requests (snd (HC_updateLeadStatus wo ro leadId newStatus (q, v))) =
     requests v @ UpdateStatusReq leadId newStatus #
       (if wo = WriteOk then [SelectReq T_leads] else [])
   \<and> (\<forall>l \<in> set (tbl_leads w). l_id l = leadId \<and> wo = WriteOk \<longrightarrow>
        l\<lparr>l_status := newStatus\<rparr>
          \<in> set (tbl_leads (snd (Leads_updateLeadStatus wo ro leadId newStatus (p, w))))
        \<and> (ro = ReadOk \<longrightarrow> l\<lparr>l_status := newStatus\<rparr>
          \<in> set (leads (fst (Leads_updateLeadStatus wo ro leadId newStatus (p, w))))))
   \<and> (\<forall>l \<in> set (tbl_leads v). l_id l = leadId \<and> wo = WriteOk \<longrightarrow>
        l\<lparr>l_status := newStatus\<rparr>
          \<in> set (tbl_leads (snd (HC_updateLeadStatus wo ro leadId newStatus (q, v))))
        \<and> (ro = ReadOk \<longrightarrow> l\<lparr>l_status := newStatus\<rparr>
          \<in> set (hc_leads (fst (HC_updateLeadStatus wo ro leadId newStatus (q, v))))))"
proof (intro conjI ballI impI)
  show "requests (snd (Leads_updateLeadStatus wo ro leadId newStatus (p, w))) =
     requests w @ UpdateStatusReq leadId newStatus #
       (if wo = WriteOk then [SelectReq T_leads] else [])"
    by (rule Leads_updateLeadStatus_requests)
  show "requests (snd (HC_updateLeadStatus wo ro leadId newStatus (q, v))) =
     requests v @ UpdateStatusReq leadId newStatus #
       (if wo = WriteOk then [SelectReq T_leads] else [])"
    by (rule HC_updateLeadStatus_requests)
next
  fix l assume "l \<in> set (tbl_leads w)" "l_id l = leadId \<and> wo = WriteOk"
  then show "l\<lparr>l_status := newStatus\<rparr>
          \<in> set (tbl_leads (snd (Leads_updateLeadStatus wo ro leadId newStatus (p, w))))"
    using Leads_updateLeadStatus_accepts(1) by blast
next
  fix l assume "l \<in> set (tbl_leads w)" "l_id l = leadId \<and> wo = WriteOk" "ro = ReadOk"
  then show "l\<lparr>l_status := newStatus\<rparr>
          \<in> set (leads (fst (Leads_updateLeadStatus wo ro leadId newStatus (p, w))))"
    using Leads_updateLeadStatus_accepts(2) by blast
next
  fix l assume "l \<in> set (tbl_leads v)" "l_id l = leadId \<and> wo = WriteOk"
  then show "l\<lparr>l_status := newStatus\<rparr>
          \<in> set (tbl_leads (snd (HC_updateLeadStatus wo ro leadId newStatus (q, v))))"
    using HC_updateLeadStatus_accepts(1) by blast
next
  fix l assume "l \<in> set (tbl_leads v)" "l_id l = leadId \<and> wo = WriteOk" "ro = ReadOk"
  then show "l\<lparr>l_status := newStatus\<rparr>
          \<in> set (hc_leads (fst (HC_updateLeadStatus wo ro leadId newStatus (q, v))))"
    using HC_updateLeadStatus_accepts(2) by blast
qed

lemma sample_closed_to_new:
  "sample_lead \<in> set (tbl_leads (sample_world :: Leads_callback world))"
  "sample_lead \<in> set (tbl_leads (sample_world :: HC_callback world))"
  "l_id sample_lead = lit ''L1''" "l_status sample_lead = lit ''closed''"
  by (simp_all add: sample_world_def sample_lead_def)

theorem status_update_unconstrained_witness:
  "l_status sample_lead = lit ''closed''
   \<and> sample_lead\<lparr>l_status := lit ''new''\<rparr>
       \<in> set (tbl_leads (snd (Leads_updateLeadStatus WriteOk ReadOk (lit ''L1'') (lit ''new'')
                                (sample_Leads_page, sample_world))))
   \<and> sample_lead\<lparr>l_status := lit ''new''\<rparr>
       \<in> set (leads (fst (Leads_updateLeadStatus WriteOk ReadOk (lit ''L1'') (lit ''new'')
                                (sample_Leads_page, sample_world))))
   \<and> sample_lead\<lparr>l_status := lit ''new''\<rparr>
       \<in> set (hc_leads (fst (HC_updateLeadStatus WriteOk ReadOk (lit ''L1'') (lit ''new'')
                                (sample_HC_page, sample_world))))
   \<and> requests (snd (Leads_updateLeadStatus WriteOk ReadOk (lit ''L1'') (lit ''new'')
                                (sample_Leads_page, sample_world)))
       = [UpdateStatusReq (lit ''L1'') (lit ''new''), SelectReq T_leads]"
  using status_update_unconstrained
    [of WriteOk ReadOk "lit ''L1''" "lit ''new''" sample_Leads_page sample_world
        sample_HC_page sample_world]
    sample_closed_to_new
  by (simp del: Leads_updateLeadStatus.simps HC_updateLeadStatus.simps add: sample_world_def)

section \<open>Failing writes\<close>

text \<open>
  A write that resolves with an error object takes neither branch that logs: the
  console is what it was. A write whose promise rejects reaches the \<^verbatim>\<open>catch\<close> and is
  logged. In both cases the form's submitting flag is false again afterwards.
\<close>

lemma returned_error_leaves_console:
  "console (snd (Leads_addNote (WriteError m) ro new_id stamp (p, w))) = console w"
  "console (snd (HC_handleFollowUp (WriteError m) ro new_id stamp now (q, v))) = console v"
  "console (snd (Leads_updateLeadStatus (WriteError m) ro leadId st (p, w))) = console w"
  "console (snd (HC_updateLeadStatus (WriteError m) ro leadId st (q, v))) = console v"
  by (simp_all add: log_request_def split: option.splits)

lemma rejected_write_is_logged:
  "selectedLead p \<noteq> None \<Longrightarrow> \<not> blank (noteText p) \<Longrightarrow>
     console (snd (Leads_addNote (WriteRejects m) ro new_id stamp (p, w))) =
       console w @ [(lit ''Error adding note:'', m)]"
  "hc_selectedLead q \<noteq> None \<Longrightarrow> \<not> blank (hc_followUpText q) \<Longrightarrow>
     console (snd (HC_handleFollowUp (WriteRejects m) ro new_id stamp now (q, v))) =
       console v @ [(lit ''Error adding follow-up:'', m)]"
  "console (snd (Leads_updateLeadStatus (WriteRejects m) ro leadId st (p, w))) =
     console w @ [(lit ''Error updating lead status:'', m)]"
  "console (snd (HC_updateLeadStatus (WriteRejects m) ro leadId st (q, v))) =
     console v @ [(lit ''Error updating lead status:'', m)]"
  by (auto simp: log_request_def console_error_def trim_empty_iff split: option.splits)

lemma failed_write_reenables_form:
  "wo \<noteq> WriteOk \<Longrightarrow> \<not> submitting (fst (Leads_addNote wo ro new_id stamp (p, w))) \<or>
     Leads_addNote wo ro new_id stamp (p, w) = (p, w)"
  "wo \<noteq> WriteOk \<Longrightarrow> \<not> hc_submitting (fst (HC_handleFollowUp wo ro new_id stamp now (q, v))) \<or>
     HC_handleFollowUp wo ro new_id stamp now (q, v) = (q, v)"
  by (cases wo; auto split: option.splits)+

text \<open>
  C3. With a lead selected and the text \<^verbatim>\<open>'call back'\<close>, a write that resolves with the
  error object \<^verbatim>\<open>denied\<close> leaves the console empty in \<^verbatim>\<open>addNote\<close>,
  \<^verbatim>\<open>handleFollowUp\<close> and \<^verbatim>\<open>updateLeadStatus\<close>; the same failure as a rejected
  promise writes the line \<^verbatim>\<open>Error adding note:\<close>.
\<close>

theorem returned_write_error_not_logged:
  "selectedLead sample_Leads_page = Some sample_lead \<and> \<not> blank (noteText sample_Leads_page)
   \<and> console (snd (Leads_addNote (WriteError (lit ''denied'')) ReadOk (lit ''N1'') 20
                     (sample_Leads_page, sample_world))) = []
   \<and> console (snd (HC_handleFollowUp (WriteError (lit ''denied'')) ReadOk (lit ''F1'') 20 21
                     (sample_HC_page, sample_world))) = []
   \<and> console (snd (Leads_updateLeadStatus (WriteError (lit ''denied'')) ReadOk (lit ''L1'')
                     (lit ''new'') (sample_Leads_page, sample_world))) = []
   \<and> console (snd (Leads_addNote (WriteRejects (lit ''denied'')) ReadOk (lit ''N1'') 20
                     (sample_Leads_page, sample_world)))
       = [(lit ''Error adding note:'', lit ''denied'')]"
  by (simp add: sample_Leads_page_def sample_HC_page_def sample_world_def trim_empty_iff
      blank_sample log_request_def console_error_def)

section \<open>Failing reads\<close>

text \<open>
  C6. A snapshot fetch that does not return rows (\<^verbatim>\<open>data = null\<close>, or a rejected
  promise) leaves the page state as it was, so the lists keep their previous content
  and the page renders the same view; the fetch writes nothing to the console and the
  view has no place for an error message.
\<close>

theorem failed_fetch_keeps_state:
  "ro \<noteq> ReadOk \<Longrightarrow>
     state_of (Leads_fetchLeads ro (p, w)) = (p, w\<lparr>requests := requests w @ [SelectReq T_leads]\<rparr>)
   \<and> state_of (Leads_fetchNotes ro (p, w)) = (p, w\<lparr>requests := requests w @ [SelectReq T_notes]\<rparr>)
   \<and> state_of (HC_fetchLeads ro (q, v)) = (q, v\<lparr>requests := requests v @ [SelectReq T_leads]\<rparr>)
   \<and> state_of (HC_fetchFollowUps ro (q, v))
       = (q, v\<lparr>requests := requests v @ [SelectReq T_follow_ups]\<rparr>)
   \<and> Leads_render (fst (state_of (Leads_fetchLeads ro (p, w)))) = Leads_render p
   \<and> Leads_render (fst (state_of (Leads_fetchNotes ro (p, w)))) = Leads_render p
   \<and> HC_render (fst (state_of (HC_fetchLeads ro (q, v)))) = HC_render q
   \<and> HC_render (fst (state_of (HC_fetchFollowUps ro (q, v)))) = HC_render q"
  by (cases ro) (simp_all add: log_request_def)

theorem failed_fetch_keeps_state_witness:
  "ReadNoData \<noteq> ReadOk
   \<and> state_of (Leads_fetchLeads ReadNoData (sample_Leads_page\<lparr>leads := []\<rparr>, sample_world))
       = (sample_Leads_page\<lparr>leads := []\<rparr>, sample_world\<lparr>requests := [SelectReq T_leads]\<rparr>)
   \<and> leads (fst (state_of (Leads_fetchLeads ReadNoData
        (sample_Leads_page\<lparr>leads := []\<rparr>, sample_world)))) = []
   \<and> tbl_leads (sample_world :: Leads_callback world) = [sample_lead]"
  using failed_fetch_keeps_state
    [of ReadNoData "sample_Leads_page\<lparr>leads := []\<rparr>" sample_world sample_HC_page sample_world]
  by (simp add: sample_world_def del: Leads_fetchLeads.simps Leads_fetchNotes.simps
      HC_fetchLeads.simps HC_fetchFollowUps.simps)

section \<open>The recent-entries panels\<close>

lemma lead_title_unknown:
  "\<forall>l \<in> set ls. l_id l \<noteq> k \<Longrightarrow> lead_title ls k = lit ''Unknown Lead''"
  by (simp add: lead_title_def find_None_iff [THEN iffD2])

text \<open>
  C7. A rendered note or follow-up whose \<^verbatim>\<open>lead_id\<close> is the id of no loaded lead is
  shown as a card titled \<^verbatim>\<open>Unknown Lead\<close>, with its own date and text.
\<close>

theorem unknown_lead_fallback:
  "(\<forall>i < length (recentNotes p).
      (\<forall>l \<in> set (leads p). l_id l \<noteq> n_lead_id (notes' p ! i)) \<longrightarrow>
      recentNotes p ! i =
        \<lparr>card_title = lit ''Unknown Lead'', card_date = n_created_at (notes' p ! i),
         card_text = n_content (notes' p ! i)\<rparr>)
   \<and> (\<forall>i < length (recentFollowUps q).
      (\<forall>l \<in> set (hc_leads q). l_id l \<noteq> f_lead_id (hc_followUps q ! i)) \<longrightarrow>
      recentFollowUps q ! i =
        \<lparr>card_title = lit ''Unknown Lead'', card_date = f_created_at (hc_followUps q ! i),
         card_text = f_notes (hc_followUps q ! i)\<rparr>)"
  by (simp add: recentNotes_def recentFollowUps_def lead_title_unknown)

theorem unknown_lead_fallback_witness:
  "0 < length (recentNotes (sample_Leads_page\<lparr>notes' := [orphan_note]\<rparr>))
   \<and> n_lead_id orphan_note
        \<notin> set (map l_id (leads (sample_Leads_page\<lparr>notes' := [orphan_note]\<rparr>)))
   \<and> recentNotes (sample_Leads_page\<lparr>notes' := [orphan_note]\<rparr>) ! 0 =
        \<lparr>card_title = lit ''Unknown Lead'', card_date = 30, card_text = lit ''hello''\<rparr>
   \<and> 0 < length (recentFollowUps (sample_HC_page\<lparr>hc_followUps := [orphan_followUp]\<rparr>))
   \<and> recentFollowUps (sample_HC_page\<lparr>hc_followUps := [orphan_followUp]\<rparr>) ! 0 =
        \<lparr>card_title = lit ''Unknown Lead'', card_date = 30, card_text = lit ''hello''\<rparr>"
proof -
  let ?p = "sample_Leads_page\<lparr>notes' := [orphan_note]\<rparr>"
  let ?q = "sample_HC_page\<lparr>hc_followUps := [orphan_followUp]\<rparr>"
  have len: "0 < length (recentNotes ?p)" "0 < length (recentFollowUps ?q)"
    by (simp_all add: recentNotes_def recentFollowUps_def)
  have absent: "n_lead_id orphan_note \<notin> set (map l_id (leads ?p))"
    by (simp add: sample_Leads_page_def sample_lead_def orphan_note_def lit_def)
  have missing: "\<forall>l \<in> set (leads ?p). l_id l \<noteq> n_lead_id (notes' ?p ! 0)"
    "\<forall>l \<in> set (hc_leads ?q). l_id l \<noteq> f_lead_id (hc_followUps ?q ! 0)"
    by (simp_all add: sample_Leads_page_def sample_HC_page_def sample_lead_def orphan_note_def
        orphan_followUp_def lit_def)
  from unknown_lead_fallback [of ?p ?q] len missing
  have "recentNotes ?p ! 0 =
        \<lparr>card_title = lit ''Unknown Lead'', card_date = n_created_at (notes' ?p ! 0),
         card_text = n_content (notes' ?p ! 0)\<rparr>"
    and "recentFollowUps ?q ! 0 =
        \<lparr>card_title = lit ''Unknown Lead'', card_date = f_created_at (hc_followUps ?q ! 0),
         card_text = f_notes (hc_followUps ?q ! 0)\<rparr>"
    by blast+
  then have "recentNotes ?p ! 0 =
        \<lparr>card_title = lit ''Unknown Lead'', card_date = 30, card_text = lit ''hello''\<rparr>"
    and "recentFollowUps ?q ! 0 =
        \<lparr>card_title = lit ''Unknown Lead'', card_date = 30, card_text = lit ''hello''\<rparr>"
    by (simp_all add: orphan_note_def orphan_followUp_def)
  with len absent show ?thesis
    by blast
qed

text \<open>
  C9. The Recent Notes panel shows the first 5 notes of the list and the Recent
  Follow-ups panel the first 10 follow-ups, in order; what the lists hold beyond
  these positions does not reach the panels.
\<close>

theorem recent_panels_limited:
  "length (recentNotes p) = min 5 (length (notes' p))
   \<and> (\<forall>i < length (recentNotes p). card_text (recentNotes p ! i) = n_content (notes' p ! i))
   \<and> recentNotes (p\<lparr>notes' := take 5 (notes' p)\<rparr>) = recentNotes p
   \<and> (5 \<le> length (notes' p) \<longrightarrow> recentNotes (p\<lparr>notes' := notes' p @ extra\<rparr>) = recentNotes p)
   \<and> length (recentFollowUps q) = min 10 (length (hc_followUps q))
   \<and> (\<forall>i < length (recentFollowUps q).
        card_text (recentFollowUps q ! i) = f_notes (hc_followUps q ! i))
   \<and> recentFollowUps (q\<lparr>hc_followUps := take 10 (hc_followUps q)\<rparr>) = recentFollowUps q
   \<and> (10 \<le> length (hc_followUps q) \<longrightarrow>
        recentFollowUps (q\<lparr>hc_followUps := hc_followUps q @ extra'\<rparr>) = recentFollowUps q)"
  by (simp add: recentNotes_def recentFollowUps_def min_def)

theorem recent_panels_limited_witness:
  "length (recentNotes (sample_Leads_page\<lparr>notes' := replicate 7 orphan_note\<rparr>)) = 5
   \<and> length (recentFollowUps (sample_HC_page\<lparr>hc_followUps := replicate 12 orphan_followUp\<rparr>)) = 10
   \<and> recentNotes (sample_Leads_page\<lparr>notes' := replicate 7 orphan_note @ [orphan_note\<lparr>n_content := lit ''late''\<rparr>]\<rparr>)
       = recentNotes (sample_Leads_page\<lparr>notes' := replicate 7 orphan_note\<rparr>)"
  using recent_panels_limited
    [of "sample_Leads_page\<lparr>notes' := replicate 7 orphan_note\<rparr>"
        "[orphan_note\<lparr>n_content := lit ''late''\<rparr>]"
        "sample_HC_page\<lparr>hc_followUps := replicate 12 orphan_followUp\<rparr>" "[]"]
  by simp

section \<open>Grouping leads by status\<close>

lemma status_labels_distinct: "distinct status_labels"
  by (simp add: status_labels_def lit_def)

lemma stats_total_eq:
  "stats_total p = length (filter (\<lambda>l. l_status l \<in> set status_labels) (leads p))"
proof -
  have "sum_list (map (\<lambda>s. length (filter (\<lambda>l. l_status l = s) xs)) status_labels)
      = length (filter (\<lambda>l. l_status l \<in> set status_labels) xs)" for xs
    using status_labels_distinct
    by (induction xs) (auto simp: status_labels_def)
  then show ?thesis
    by (simp add: stats_total_def getLeadsByStatus_def)
qed

text \<open>
  C10. The groupings \<^verbatim>\<open>getLeadsByStatus\<close> computes for the four labels are pairwise
  disjoint; a lead whose status is one of the labels is in exactly one of them and a
  lead with any other status in none; so the four counts add up to the number of leads
  with a labelled status, which is at most, and for some lists less than, the number
  of leads.
\<close>

theorem status_groupings_partition:
  "(\<forall>s \<in> set status_labels. \<forall>t \<in> set status_labels. s \<noteq> t \<longrightarrow>
      set (getLeadsByStatus p s) \<inter> set (getLeadsByStatus p t) = {})
   \<and> (\<forall>l \<in> set (leads p). l_status l \<in> set status_labels \<longrightarrow>
        (\<exists>!s. s \<in> set status_labels \<and> l \<in> set (getLeadsByStatus p s)))
   \<and> (\<forall>l. l_status l \<notin> set status_labels \<longrightarrow>
        (\<forall>s \<in> set status_labels. l \<notin> set (getLeadsByStatus p s)))
   \<and> stats_total p = length (filter (\<lambda>l. l_status l \<in> set status_labels) (leads p))
   \<and> stats_total p \<le> length (leads p)
   \<and> (\<exists>p'. stats_total p' < length (leads p'))"
proof (intro conjI)
  show "\<forall>s \<in> set status_labels. \<forall>t \<in> set status_labels. s \<noteq> t \<longrightarrow>
      set (getLeadsByStatus p s) \<inter> set (getLeadsByStatus p t) = {}"
    by (auto simp: getLeadsByStatus_def)
  show "\<forall>l \<in> set (leads p). l_status l \<in> set status_labels \<longrightarrow>
        (\<exists>!s. s \<in> set status_labels \<and> l \<in> set (getLeadsByStatus p s))"
    by (auto simp: getLeadsByStatus_def)
  show "\<forall>l. l_status l \<notin> set status_labels \<longrightarrow>
        (\<forall>s \<in> set status_labels. l \<notin> set (getLeadsByStatus p s))"
    by (auto simp: getLeadsByStatus_def)
  show "stats_total p = length (filter (\<lambda>l. l_status l \<in> set status_labels) (leads p))"
    by (rule stats_total_eq)
  show "stats_total p \<le> length (leads p)"
    by (simp add: stats_total_eq)
  have "stats_total (sample_Leads_page\<lparr>leads := [sample_lead\<lparr>l_status := lit ''archived''\<rparr>]\<rparr>)
      < length (leads (sample_Leads_page\<lparr>leads := [sample_lead\<lparr>l_status := lit ''archived''\<rparr>]\<rparr>))"
    by (simp add: stats_total_eq status_labels_def lit_def)
  then show "\<exists>p'. stats_total p' < length (leads p')" ..
qed

theorem status_groupings_partition_witness:
  "lit ''new'' \<in> set status_labels \<and> lit ''closed'' \<in> set status_labels
   \<and> set (getLeadsByStatus sample_Leads_page (lit ''new''))
       \<inter> set (getLeadsByStatus sample_Leads_page (lit ''closed'')) = {}
   \<and> sample_lead \<in> set (leads sample_Leads_page)
   \<and> l_status sample_lead \<in> set status_labels
   \<and> (\<exists>!s. s \<in> set status_labels \<and> sample_lead \<in> set (getLeadsByStatus sample_Leads_page s))
   \<and> stats_total sample_Leads_page \<le> length (leads sample_Leads_page)"
proof -
  have labels: "lit ''new'' \<in> set status_labels" "lit ''closed'' \<in> set status_labels"
    "lit ''new'' \<noteq> lit ''closed''"
    by (simp_all add: status_labels_def lit_def)
  have here: "sample_lead \<in> set (leads sample_Leads_page)"
    "l_status sample_lead \<in> set status_labels"
    by (simp_all add: sample_Leads_page_def sample_lead_def status_labels_def)
  from status_groupings_partition [of sample_Leads_page] labels here show ?thesis
    by blast
qed

section \<open>Realtime refetches\<close>

lemma Leads_fetch_channels:
  "channels (snd (state_of (Leads_fetchLeads ro st))) = channels (snd st)"
  "channels (snd (state_of (Leads_fetchNotes ro st))) = channels (snd st)"
  by (cases st; cases ro; simp add: log_request_def)+

lemma Leads_fetch_requests:
  "requests (snd (state_of (Leads_fetchLeads ro st))) = requests (snd st) @ [SelectReq T_leads]"
  "requests (snd (state_of (Leads_fetchNotes ro st))) = requests (snd st) @ [SelectReq T_notes]"
  by (cases st; cases ro; simp add: log_request_def)+

lemma Leads_mount_channels:
  "channels w = [] \<Longrightarrow> channels (snd (Leads_mount rl rn (p, w))) = Leads_subscriptions"
  by (cases rl; cases rn) (simp_all add: log_request_def)

lemma Leads_deliver_step:
  assumes "channels (snd st) = Leads_subscriptions"
  shows "channels (snd (Leads_deliver e st)) = Leads_subscriptions"
    and "requests (snd (Leads_deliver e st)) =
           requests (snd st) @ (if delivered_on T_leads e then [SelectReq T_leads] else [])
             @ (if delivered_on T_notes e then [SelectReq T_notes] else [])"
  using assms
  by (cases st; cases e;
      simp add: Leads_subscriptions_def matches_def delivered_on_def Leads_fetch_channels
        Leads_fetch_requests
        del: Leads_fetchLeads.simps Leads_fetchNotes.simps; fastforce)+

lemma Leads_deliver_all_count:
  "channels (snd st) = Leads_subscriptions \<Longrightarrow> T \<in> {T_leads, T_notes} \<Longrightarrow>
     refetches T (snd (Leads_deliver_all es st)) =
       refetches T (snd st) + length (filter (delivered_on T) es)"
proof (induction es arbitrary: st)
  case Nil
  then show ?case by simp
next
  case (Cons e es)
  have "refetches T (snd (Leads_deliver e st)) =
          refetches T (snd st) + (if delivered_on T e then 1 else 0)"
    using Cons.prems
    by (auto simp: refetches_def Leads_deliver_step(2) delivered_on_def
        simp del: Leads_deliver.simps)
  with Cons.IH [of "Leads_deliver e st"] Cons.prems Leads_deliver_step(1) [of st e]
  show ?case
    by (simp del: Leads_deliver.simps)
qed

lemma HC_fetch_channels:
  "channels (snd (state_of (HC_fetchLeads ro st))) = channels (snd st)"
  "channels (snd (state_of (HC_fetchFollowUps ro st))) = channels (snd st)"
  by (cases st; cases ro; simp add: log_request_def)+

lemma HC_fetch_requests:
  "requests (snd (state_of (HC_fetchLeads ro st))) = requests (snd st) @ [SelectReq T_leads]"
  "requests (snd (state_of (HC_fetchFollowUps ro st))) =
     requests (snd st) @ [SelectReq T_follow_ups]"
  by (cases st; cases ro; simp add: log_request_def)+

lemma HC_mount_channels:
  "channels w = [] \<Longrightarrow> channels (snd (HC_mount rl rf (p, w))) = HC_subscriptions"
  by (cases rl; cases rf) (simp_all add: log_request_def)

lemma HC_deliver_step:
  assumes "channels (snd st) = HC_subscriptions"
  shows "channels (snd (HC_deliver e st)) = HC_subscriptions"
    and "requests (snd (HC_deliver e st)) =
           requests (snd st) @ (if delivered_on T_leads e then [SelectReq T_leads] else [])
             @ (if delivered_on T_follow_ups e then [SelectReq T_follow_ups] else [])"
  using assms
  by (cases st; cases e;
      simp add: HC_subscriptions_def matches_def delivered_on_def HC_fetch_channels
        HC_fetch_requests
        del: HC_fetchLeads.simps HC_fetchFollowUps.simps; fastforce)+

lemma HC_deliver_all_count:
  "channels (snd st) = HC_subscriptions \<Longrightarrow> T \<in> {T_leads, T_follow_ups} \<Longrightarrow>
     refetches T (snd (HC_deliver_all es st)) =
       refetches T (snd st) + length (filter (delivered_on T) es)"
proof (induction es arbitrary: st)
  case Nil
  then show ?case by simp
next
  case (Cons e es)
  have "refetches T (snd (HC_deliver e st)) =
          refetches T (snd st) + (if delivered_on T e then 1 else 0)"
    using Cons.prems
    by (auto simp: refetches_def HC_deliver_step(2) delivered_on_def
        simp del: HC_deliver.simps)
  with Cons.IH [of "HC_deliver e st"] Cons.prems HC_deliver_step(1) [of st e]
  show ?case
    by (simp del: HC_deliver.simps)
qed

lemma delivered_on_one_table: "delivered_on T e \<Longrightarrow> delivered_on T' e \<longleftrightarrow> T' = T"
  by (auto simp: delivered_on_def)

text \<open>
  C5. On a mounted page, for each subscribed table \<open>T\<close> (\<^verbatim>\<open>leads\<close> and \<^verbatim>\<open>notes\<close> on
  the Leads page, \<^verbatim>\<open>leads\<close> and \<^verbatim>\<open>follow_ups\<close> on the HandleCustomer page), a change
  event delivered on \<open>T\<close>'s channel issues exactly one snapshot request for \<open>T\<close>, and
  over any sequence of events the number of snapshot requests for \<open>T\<close> grows by the
  number of events delivered on \<open>T\<close>'s channel.
\<close>

theorem one_refetch_per_change_event:
  "(channels w = [] \<and> T \<in> {T_leads, T_notes} \<longrightarrow>
      refetches T (snd (Leads_deliver_all es (Leads_mount rl rn (p, w)))) =
        refetches T (snd (Leads_mount rl rn (p, w))) + length (filter (delivered_on T) es)
      \<and> (delivered_on T e \<longrightarrow>
           requests (snd (Leads_deliver e (Leads_mount rl rn (p, w)))) =
             requests (snd (Leads_mount rl rn (p, w))) @ [SelectReq T]))
   \<and> (channels v = [] \<and> T' \<in> {T_leads, T_follow_ups} \<longrightarrow>
      refetches T' (snd (HC_deliver_all es (HC_mount rl rf (q, v)))) =
        refetches T' (snd (HC_mount rl rf (q, v))) + length (filter (delivered_on T') es)
      \<and> (delivered_on T' e \<longrightarrow>
           requests (snd (HC_deliver e (HC_mount rl rf (q, v)))) =
             requests (snd (HC_mount rl rf (q, v))) @ [SelectReq T']))"
proof (intro conjI impI; elim conjE)
  assume mounted: "channels w = []" and T: "T \<in> {T_leads, T_notes}"
  from Leads_mount_channels [OF mounted]
  have sub: "channels (snd (Leads_mount rl rn (p, w))) = Leads_subscriptions" .
  from Leads_deliver_all_count [OF sub T]
  show "refetches T (snd (Leads_deliver_all es (Leads_mount rl rn (p, w)))) =
        refetches T (snd (Leads_mount rl rn (p, w))) + length (filter (delivered_on T) es)" .
  assume "delivered_on T e"
  with T show "requests (snd (Leads_deliver e (Leads_mount rl rn (p, w)))) =
             requests (snd (Leads_mount rl rn (p, w))) @ [SelectReq T]"
    by (auto simp: Leads_deliver_step(2) [OF sub] delivered_on_one_table
        simp del: Leads_deliver.simps Leads_mount.simps)
next
  assume mounted: "channels v = []" and T: "T' \<in> {T_leads, T_follow_ups}"
  from HC_mount_channels [OF mounted]
  have sub: "channels (snd (HC_mount rl rf (q, v))) = HC_subscriptions" .
  from HC_deliver_all_count [OF sub T]
  show "refetches T' (snd (HC_deliver_all es (HC_mount rl rf (q, v)))) =
        refetches T' (snd (HC_mount rl rf (q, v))) + length (filter (delivered_on T') es)" .
  assume "delivered_on T' e"
  with T show "requests (snd (HC_deliver e (HC_mount rl rf (q, v)))) =
             requests (snd (HC_mount rl rf (q, v))) @ [SelectReq T']"
    by (auto simp: HC_deliver_step(2) [OF sub] delivered_on_one_table
        simp del: HC_deliver.simps HC_mount.simps)
qed

lemma sample_mount_refetches:
  "refetches T_leads (snd (Leads_mount ReadOk ReadOk (Leads_initial, sample_world))) = 1"
  "refetches T_follow_ups (snd (HC_mount ReadOk ReadOk (HC_initial, sample_world))) = 1"
  "length (filter (delivered_on T_leads) sample_events) = 2"
  "length (filter (delivered_on T_follow_ups) sample_events) = 1"
  "channels (sample_world :: Leads_callback world) = []"
  "channels (sample_world :: HC_callback world) = []"
  by (simp_all add: refetches_def sample_world_def log_request_def sample_events_def
      delivered_on_def lit_def)

theorem one_refetch_per_change_event_witness:
  "channels (sample_world :: Leads_callback world) = []
   \<and> length (filter (delivered_on T_leads) sample_events) = 2
   \<and> refetches T_leads (snd (Leads_mount ReadOk ReadOk (Leads_initial, sample_world))) = 1
   \<and> refetches T_leads
        (snd (Leads_deliver_all sample_events
               (Leads_mount ReadOk ReadOk (Leads_initial, sample_world)))) = 3
   \<and> refetches T_follow_ups
        (snd (HC_deliver_all sample_events
               (HC_mount ReadOk ReadOk (HC_initial, sample_world)))) = 2"
  using one_refetch_per_change_event
    [of sample_world T_leads sample_events ReadOk ReadOk Leads_initial
        "hd sample_events" sample_world T_follow_ups ReadOk HC_initial]
    sample_mount_refetches
  by (simp del: Leads_mount.simps HC_mount.simps)

section \<open>The migration\<close>

lemma seed_row: "map_of (zip [''id'', ''username'', ''nama_lengkap'', ''role'', ''nomor_wa'', ''aktif'', ''avatar'']
       [Text ''550e8400-e29b-41d4-a716-446655440001'', Text ''admin'', Text ''Super Admin'',
        Text ''superadmin'', Text ''6281234567890'', Boolean True,
        Text ''https://i.pravatar.cc/150?u=admin'']) = admin_row"
  by (rule ext) (simp add: admin_row_def)

lemma admin_row_restrict:
  "admin_row ++ (admin_row |` S) = admin_row"
  by (rule ext) (simp add: map_add_def restrict_map_def split: option.splits)

lemma upsert_admin_fresh:
  "upsert [''id'', ''username'', ''nama_lengkap'', ''role'', ''nomor_wa'', ''aktif'', ''avatar'']
       [Text ''550e8400-e29b-41d4-a716-446655440001'', Text ''admin'', Text ''Super Admin'',
        Text ''superadmin'', Text ''6281234567890'', Boolean True,
        Text ''https://i.pravatar.cc/150?u=admin''] ''id'' cs [] = [admin_row]"
  unfolding upsert_def seed_row by simp

lemma upsert_admin_again:
  "upsert [''id'', ''username'', ''nama_lengkap'', ''role'', ''nomor_wa'', ''aktif'', ''avatar'']
       [Text ''550e8400-e29b-41d4-a716-446655440001'', Text ''admin'', Text ''Super Admin'',
        Text ''superadmin'', Text ''6281234567890'', Boolean True,
        Text ''https://i.pravatar.cc/150?u=admin''] ''id'' cs [admin_row] = [admin_row]"
  unfolding upsert_def seed_row by (simp add: admin_row_restrict)

lemma seed_admin_again:
  "rows_of d T_users = [admin_row] \<Longrightarrow> exec_stmt seed_admin d = Inr d"
  using fun_upd_idem [of "rows_of d" T_users "[admin_row]"]
  by (simp add: seed_admin_def upsert_admin_again)

lemma migration_lists:
  "delete_targets migration = migrated_tables"
  "published_tables migration = map (Pair ''supabase_realtime'') [T_users, T_products, T_packages, T_leads, T_notes, T_targets, T_handle_customer_data]"
  "map fst (seeded_rows migration) = [T_users]"
  "map pol_table (created_policies migration) = [T_users, T_products, T_packages, T_leads, T_notes, T_targets, T_handle_customer_data]"
  "list_all (\<lambda>q. pol_command q = ForSelect) (created_policies migration)"
  by (simp_all add: migration_def cleanup_def seed_admin_def realtime_def read_policies_def
      migrated_tables_def)

lemma exec_all_append:
  "exec_all (xs @ ys) db =
     (case exec_all xs db of Inl e \<Rightarrow> Inl e | Inr db' \<Rightarrow> exec_all ys db')"
  by (induction xs arbitrary: db) (auto split: sum.splits)

lemma exec_cleanup:
  "exec_all cleanup db =
     Inr (db\<lparr>rows_of := (\<lambda>t. if t \<in> set migrated_tables then [] else rows_of db t)\<rparr>)"
proof -
  have "(rows_of db)(T_notes := [], T_handle_customer_data := [], T_leads := [],
          T_targets := [], T_packages := [], T_products := [], T_users := [])
        = (\<lambda>t. if t \<in> set migrated_tables then [] else rows_of db t)"
    by (rule ext) (simp add: migrated_tables_def)
  then show ?thesis
    by (simp add: cleanup_def)
qed

lemma exec_seed_after_cleanup:
  "rows_of d T_users = [] \<Longrightarrow>
     exec_stmt seed_admin d = Inr (d\<lparr>rows_of := (rows_of d)(T_users := [admin_row])\<rparr>)"
  by (simp add: seed_admin_def upsert_admin_fresh)

lemma exec_realtime:
  "\<forall>t \<in> set migrated_tables. (''supabase_realtime'', t) \<notin> set (publications d) \<Longrightarrow>
     exec_all realtime d =
       Inr (d\<lparr>publications := publications d @ published_tables realtime\<rparr>)"
  by (simp add: realtime_def migrated_tables_def)

lemma exec_read_policies:
  "exec_all read_policies d =
     Inr (d\<lparr>policies := filter (\<lambda>q. \<not> replaced_by read_policies q) (policies d)
                           @ created_policies read_policies\<rparr>)"
  by (simp add: read_policies_def replaced_by_def)

lemma migration_parts:
  "published_tables migration = published_tables realtime"
  "created_policies migration = created_policies read_policies"
  "replaced_by migration = replaced_by read_policies"
  by (simp_all add: migration_def cleanup_def seed_admin_def realtime_def read_policies_def
      replaced_by_def fun_eq_iff)

lemma exec_migration:
  assumes "\<forall>t \<in> set migrated_tables. (''supabase_realtime'', t) \<notin> set (publications db)"
  shows "exec_all migration db = Inr (migrated db)"
proof -
  let ?d1 = "db\<lparr>rows_of := (\<lambda>t. if t \<in> set migrated_tables then [] else rows_of db t)\<rparr>"
  let ?d2 = "?d1\<lparr>rows_of := (rows_of ?d1)(T_users := [admin_row])\<rparr>"
  let ?d3 = "?d2\<lparr>publications := publications ?d2 @ published_tables realtime\<rparr>"
  have 1: "exec_all cleanup db = Inr ?d1"
    by (rule exec_cleanup)
  have 2: "exec_stmt seed_admin ?d1 = Inr ?d2"
    by (rule exec_seed_after_cleanup) (simp add: migrated_tables_def)
  have 3: "exec_all realtime ?d2 = Inr ?d3"
    using assms by (intro exec_realtime) simp
  have 4: "exec_all read_policies ?d3 =
      Inr (?d3\<lparr>policies := filter (\<lambda>q. \<not> replaced_by read_policies q) (policies ?d3)
                           @ created_policies read_policies\<rparr>)"
    by (rule exec_read_policies)
  have "exec_all migration db =
      Inr (?d3\<lparr>policies := filter (\<lambda>q. \<not> replaced_by read_policies q) (policies ?d3)
                           @ created_policies read_policies\<rparr>)"
    by (simp only: migration_def exec_all_append append_Cons append_Nil exec_all.simps(2)
          1 2 3 4 sum.case)
  also have "?d3\<lparr>policies := filter (\<lambda>q. \<not> replaced_by read_policies q) (policies ?d3)
                           @ created_policies read_policies\<rparr> = migrated db"
    by (simp add: migrated_def migration_parts fun_eq_iff migrated_tables_def)
  finally show ?thesis .
qed

text \<open>
  Run on a database where none of the seven tables is yet a member of the realtime
  publication, the migration completes. Its \<^verbatim>\<open>DELETE\<close> statements target exactly the
  seven tables \<^verbatim>\<open>notes\<close>, \<^verbatim>\<open>handle_customer_data\<close>, \<^verbatim>\<open>leads\<close>, \<^verbatim>\<open>targets\<close>,
  \<^verbatim>\<open>packages\<close>, \<^verbatim>\<open>products\<close>, \<^verbatim>\<open>users\<close>, which end up empty apart from \<^verbatim>\<open>users\<close>,
  and no other table changes. Its one upsert leaves \<^verbatim>\<open>users\<close> with exactly the
  superadmin row, and running the upsert again gives the same database. All seven
  tables are members of the publication afterwards, and the policies it creates are
  one per table, each \<^verbatim>\<open>FOR SELECT\<close>.
\<close>

theorem migration_effect:
  assumes "\<forall>t \<in> set migrated_tables. (''supabase_realtime'', t) \<notin> set (publications db)"
  shows "\<exists>db'. exec_all migration db = Inr db'
     \<and> delete_targets migration = migrated_tables \<and> distinct migrated_tables
     \<and> length migrated_tables = 7
     \<and> (\<forall>t \<in> set migrated_tables. t \<noteq> T_users \<longrightarrow> rows_of db' t = [])
     \<and> (\<forall>t. t \<notin> set migrated_tables \<longrightarrow> rows_of db' t = rows_of db t)
     \<and> map fst (seeded_rows migration) = [T_users]
     \<and> rows_of db' T_users = [admin_row]
     \<and> admin_row ''role'' = Some (Text ''superadmin'')
     \<and> exec_stmt seed_admin db' = Inr db'
     \<and> (\<forall>t \<in> set migrated_tables. (''supabase_realtime'', t) \<in> set (publications db'))
     \<and> policies db' = filter (\<lambda>q. \<not> replaced_by migration q) (policies db)
                         @ created_policies migration
     \<and> (\<forall>t \<in> set migrated_tables.
           length (filter (\<lambda>q. pol_table q = t) (created_policies migration)) = 1)
     \<and> (\<forall>q \<in> set (created_policies migration).
           pol_command q = ForSelect \<and> pol_table q \<in> set migrated_tables)"
proof (intro exI conjI)
  show "exec_all migration db = Inr (migrated db)"
    using assms by (rule exec_migration)
  show "delete_targets migration = migrated_tables"
    by (rule migration_lists)
  show "distinct migrated_tables" "length migrated_tables = 7"
    by (simp_all add: migrated_tables_def)
  show "\<forall>t \<in> set migrated_tables. t \<noteq> T_users \<longrightarrow> rows_of (migrated db) t = []"
    by (simp add: migrated_def)
  show "\<forall>t. t \<notin> set migrated_tables \<longrightarrow> rows_of (migrated db) t = rows_of db t"
    by (simp add: migrated_def migrated_tables_def)
  show "map fst (seeded_rows migration) = [T_users]"
    by (rule migration_lists)
  show "rows_of (migrated db) T_users = [admin_row]"
    by (simp add: migrated_def)
  then show "exec_stmt seed_admin (migrated db) = Inr (migrated db)"
    by (rule seed_admin_again)
  show "admin_row ''role'' = Some (Text ''superadmin'')"
    by (simp add: admin_row_def)
  show "\<forall>t \<in> set migrated_tables. (''supabase_realtime'', t) \<in> set (publications (migrated db))"
    by (simp add: migrated_def migration_lists migrated_tables_def)
  show "policies (migrated db) = filter (\<lambda>q. \<not> replaced_by migration q) (policies db)
                         @ created_policies migration"
    by (simp add: migrated_def)
  show "\<forall>t \<in> set migrated_tables.
           length (filter (\<lambda>q. pol_table q = t) (created_policies migration)) = 1"
    by (simp add: migrated_tables_def migration_parts read_policies_def)
  show "\<forall>q \<in> set (created_policies migration).
           pol_command q = ForSelect \<and> pol_table q \<in> set migrated_tables"
    by (simp add: migrated_tables_def migration_parts read_policies_def)
qed

theorem migration_effect_witness:
  "list_all (\<lambda>t. (''supabase_realtime'', t) \<notin> set (publications sample_database))
     migrated_tables
   \<and> length (rows_of sample_database T_users) = 2
   \<and> (\<exists>db'. exec_all migration sample_database = Inr db'
         \<and> rows_of db' T_users = [admin_row]
         \<and> rows_of db' T_leads = []
         \<and> rows_of db' T_follow_ups = rows_of sample_database T_follow_ups
         \<and> exec_stmt seed_admin db' = Inr db'
         \<and> (''supabase_realtime'', T_notes) \<in> set (publications db')
         \<and> length (filter (\<lambda>q. pol_table q = T_users) (policies db')) = 1)"
proof -
  have fresh: "\<forall>t \<in> set migrated_tables.
      (''supabase_realtime'', t) \<notin> set (publications sample_database)"
    by (simp add: sample_database_def migrated_tables_def)
  have members: "T_leads \<in> set migrated_tables" "T_notes \<in> set migrated_tables"
    "T_leads \<noteq> T_users" "T_follow_ups \<notin> set migrated_tables"
    by (simp_all add: migrated_tables_def)
  from migration_effect [OF fresh] obtain db' where
    run: "exec_all migration sample_database = Inr db'"
    and emptied: "\<forall>t \<in> set migrated_tables. t \<noteq> T_users \<longrightarrow> rows_of db' t = []"
    and kept: "\<forall>t. t \<notin> set migrated_tables \<longrightarrow> rows_of db' t = rows_of sample_database t"
    and seeded: "rows_of db' T_users = [admin_row]"
    and again: "exec_stmt seed_admin db' = Inr db'"
    and published: "\<forall>t \<in> set migrated_tables. (''supabase_realtime'', t) \<in> set (publications db')"
    and pols: "policies db' = filter (\<lambda>q. \<not> replaced_by migration q) (policies sample_database)
                         @ created_policies migration"
    by blast
  have "length (filter (\<lambda>q. pol_table q = T_users) (policies db')) = 1"
    unfolding pols
    by (simp add: sample_database_def migration_parts read_policies_def replaced_by_def)
  moreover have "list_all (\<lambda>t. (''supabase_realtime'', t) \<notin> set (publications sample_database))
     migrated_tables"
    using fresh by (simp add: list_all_iff)
  moreover have "length (rows_of sample_database T_users) = 2"
    by (simp add: sample_database_def)
  ultimately show ?thesis
    using run emptied kept seeded again published members by blast
qed

text \<open>
  The \<^verbatim>\<open>ALTER PUBLICATION ... ADD TABLE\<close> statements have no guard, unlike the upsert
  (\<^verbatim>\<open>ON CONFLICT\<close>) and the policies (\<^verbatim>\<open>DROP POLICY IF EXISTS\<close>): as soon as one of the
  seven tables is already a member of the publication the migration stops with
  \<^verbatim>\<open>duplicate_object\<close>, and so does every second run.
\<close>

lemma exec_realtime_duplicate:
  "t \<in> set migrated_tables \<Longrightarrow> (''supabase_realtime'', t) \<in> set (publications d) \<Longrightarrow>
     exec_all realtime d = Inl (DuplicateObject ''supabase_realtime'')"
  by (auto simp: realtime_def migrated_tables_def)

lemma migration_aborts_when_published:
  assumes "t \<in> set migrated_tables"
    and "(''supabase_realtime'', t) \<in> set (publications db)"
  shows "exec_all migration db = Inl (DuplicateObject ''supabase_realtime'')"
proof -
  let ?d1 = "db\<lparr>rows_of := (\<lambda>t. if t \<in> set migrated_tables then [] else rows_of db t)\<rparr>"
  let ?d2 = "?d1\<lparr>rows_of := (rows_of ?d1)(T_users := [admin_row])\<rparr>"
  have 1: "exec_all cleanup db = Inr ?d1"
    by (rule exec_cleanup)
  have 2: "exec_stmt seed_admin ?d1 = Inr ?d2"
    by (rule exec_seed_after_cleanup) (simp add: migrated_tables_def)
  have 3: "exec_all realtime ?d2 = Inl (DuplicateObject ''supabase_realtime'')"
    using assms by (intro exec_realtime_duplicate [of t]) simp_all
  show ?thesis
    by (simp only: migration_def exec_all_append append_Cons append_Nil exec_all.simps(2)
          1 2 3 sum.case)
qed

lemma migration_second_run_aborts:
  assumes "exec_all migration db = Inr db'"
  shows "exec_all migration db' = Inl (DuplicateObject ''supabase_realtime'')"
proof -
  have fresh: "\<forall>t \<in> set migrated_tables. (''supabase_realtime'', t) \<notin> set (publications db)"
    using assms migration_aborts_when_published [of _ db] by force
  from exec_migration [OF fresh] assms have "db' = migrated db"
    by simp
  moreover have "(''supabase_realtime'', T_users) \<in> set (publications (migrated db))"
    by (simp add: migrated_def migration_lists)
  moreover have "T_users \<in> set migrated_tables"
    by (simp add: migrated_tables_def)
  ultimately show ?thesis
    using migration_aborts_when_published [of T_users "migrated db"] by simp
qed

text \<open>
  C8. The migration runs once on the sample database and leaves it migrated. Run
  again on the result, it stops at \<^verbatim>\<open>ALTER PUBLICATION supabase_realtime ADD TABLE users\<close>
  with \<^verbatim>\<open>duplicate_object\<close>; run on the sample database with \<^verbatim>\<open>leads\<close> already
  published, it stops the same way. In both cases it deletes nothing, seeds no row,
  publishes no table and installs no policy.
\<close>

theorem migration_rerun_duplicate_object:
  "exec_all migration sample_database = Inr (migrated sample_database)
   \<and> exec_all migration (migrated sample_database)
       = Inl (DuplicateObject ''supabase_realtime'')
   \<and> exec_all migration
        (sample_database\<lparr>publications := [(''supabase_realtime'', T_leads)]\<rparr>)
       = Inl (DuplicateObject ''supabase_realtime'')"
proof (intro conjI)
  show first: "exec_all migration sample_database = Inr (migrated sample_database)"
    by (rule exec_migration) (simp add: sample_database_def migrated_tables_def)
  from first show "exec_all migration (migrated sample_database)
       = Inl (DuplicateObject ''supabase_realtime'')"
    by (rule migration_second_run_aborts)
  show "exec_all migration
        (sample_database\<lparr>publications := [(''supabase_realtime'', T_leads)]\<rparr>)
       = Inl (DuplicateObject ''supabase_realtime'')"
    by (rule migration_aborts_when_published [of T_leads]) (simp_all add: migrated_tables_def)
qed

end
